theory Spec2Isabelle
  imports Main
begin

section \<open>Data model of package storage\<close>

text \<open>
  A Go \<open>error\<close> is a message; a run-time panic is a value of \<open>panic\<close>, so that every
  abort of the source is a branch of the model.
\<close>

datatype error = Error string

datatype panic =
    UnknownListType string
  | SliceBoundsOutOfRange
  | NilPointerDereference

text \<open>
  Modelled from the spec: the struct \<open>Role\<close> is declared in a file of the package that
  is not in the sources. Section 3: a role has an ID and an ordered sequence of members.
\<close>

record Role =
  ID :: string
  Members :: "string list"

text \<open>
  Modelled from the spec: the struct \<open>Policy\<close> is declared in a file of the package
  that is not in the sources. Section 3: a policy has an ID and sequences of subjects,
  resources and actions.
\<close>

record Policy =
  ID :: string
  Subjects :: "string list"
  Resources :: "string list"
  Actions :: "string list"

type_synonym Roles = "Role list"
type_synonym Policies = "Policy list"

text \<open>
  The query of a request is Go's \<open>map[string][]string\<close>. Indexing a missing key gives the
  nil slice (\<open>qget\<close>); the comma-ok form tells whether the key is there (\<open>present\<close>).
\<close>

type_synonym query = "string \<rightharpoonup> string list"

definition qget :: "query \<Rightarrow> string \<Rightarrow> string list" where
  "qget m k = (case m k of None \<Rightarrow> [] | Some vs \<Rightarrow> vs)"

definition present :: "query \<Rightarrow> string \<Rightarrow> bool" where
  "present m k = (case m k of None \<Rightarrow> False | Some vs \<Rightarrow> True)"

subsection \<open>The store\<close>

text \<open>
  \<open>Value\<close> is an \<open>interface{}\<close> holding a pointer. The store keeps one heap per pointee
  type; an address is an index into it, and an address beyond the heap is the nil
  pointer. Allocation appends a cell, so it never touches an existing one. What a
  destination of any other type holds is opaque to this package: a string.
\<close>

type_synonym addr = nat

datatype iface = RolesPtr addr | PoliciesPtr addr | OtherPtr addr

record store =
  roles_heap :: "Roles list"
  policies_heap :: "Policies list"
  other_heap :: "string list"

definition cell :: "'a list \<Rightarrow> addr \<Rightarrow> 'a option" where
  "cell h a = (if a < length h then Some (h ! a) else None)"

definition roles_at :: "store \<Rightarrow> addr \<Rightarrow> Roles option" where
  "roles_at s a = cell (roles_heap s) a"

definition policies_at :: "store \<Rightarrow> addr \<Rightarrow> Policies option" where
  "policies_at s a = cell (policies_heap s) a"

definition new_roles :: "store \<Rightarrow> Roles \<Rightarrow> store \<times> addr" where
  "new_roles s res = (s\<lparr>roles_heap := roles_heap s @ [res]\<rparr>, length (roles_heap s))"

definition new_policies :: "store \<Rightarrow> Policies \<Rightarrow> store \<times> addr" where
  "new_policies s res =
     (s\<lparr>policies_heap := policies_heap s @ [res]\<rparr>, length (policies_heap s))"

text \<open>What a response writer serialises when it is handed a \<open>Value\<close>.\<close>

datatype content = RolesVal Roles | PoliciesVal Policies | OtherVal string

definition deref :: "store \<Rightarrow> iface \<Rightarrow> content option" where
  "deref s v =
     (case v of
        RolesPtr a \<Rightarrow> map_option RolesVal (roles_at s a)
      | PoliciesPtr a \<Rightarrow> map_option PoliciesVal (policies_at s a)
      | OtherPtr a \<Rightarrow> map_option OtherVal (cell (other_heap s) a))"

subsection \<open>Requests\<close>

text \<open>
  The request structs, and the part of the transport request this package reads: the
  parsed query of its URL. Everything else a factory or \<open>pagination.Parse\<close> looks at
  lives in the extension of the record.
\<close>

record GetRequest =
  Collection :: string
  Key :: string
  Value :: iface

record DeleteRequest =
  Collection :: string
  Key :: string

record UpsertRequest =
  Collection :: string
  Key :: string
  Value :: iface

record Request =
  URL_Query :: query

text \<open>
  \<open>ListRequest\<close> has the fields Collection, Value and FilterFunc. A FilterFunc receives
  the request by pointer; HOL has no type that contains functions over itself, so the
  routine is given the request's other two fields (\<open>ListFields\<close>), which it may rebind,
  and the store, which it may change.
\<close>

record ListFields =
  Collection :: string
  Value :: iface

type_synonym FilterFunc =
  "store \<Rightarrow> ListFields \<Rightarrow> query \<Rightarrow> int \<Rightarrow> int \<Rightarrow> panic + (store \<times> ListFields)"

record ListRequest = ListFields +
  FilterFunc :: "FilterFunc option"

section \<open>Record filters\<close>

definition intersects :: "string list \<Rightarrow> string list \<Rightarrow> bool" where
  "intersects xs ys = list_ex (\<lambda>x. x \<in> set ys) xs"

text \<open>
  The filter methods of \<open>*Role\<close> and \<open>*Policy\<close> are called in a chain on a pointer and
  return a pointer, nil for a record that is dropped: \<open>None\<close> here. None of them is in
  the sources. Section 4.2 of the specification gives their common rule: a dimension
  without values imposes no constraint, and the tests are exact string equality.
\<close>

text \<open>
  Modelled from the spec: the method \<open>withMembers\<close> of \<open>*Role\<close> is not in the sources.
  Section 3: a role matches a member filter if its members intersect the requested
  member set.
\<close>

definition withMembers :: "Role option \<Rightarrow> string list \<Rightarrow> Role option" where
  "withMembers r members =
     (case r of
        None \<Rightarrow> None
      | Some role \<Rightarrow>
          if members = [] \<or> intersects (Members role) members then Some role else None)"

text \<open>
  Modelled from the spec: the method \<open>withIDs\<close> of \<open>*Role\<close> is not in the sources.
  Section 3: a role matches an ID filter if its ID is in the requested ID set.
\<close>

definition Role_withIDs :: "Role option \<Rightarrow> string list \<Rightarrow> Role option" where
  "Role_withIDs r ids =
     (case r of
        None \<Rightarrow> None
      | Some role \<Rightarrow>
          if ids = [] \<or> Role.ID role \<in> set ids then Some role else None)"

text \<open>
  Modelled from the spec: the method \<open>withSubjects\<close> of \<open>*Policy\<close> is not in the
  sources. Section 3: a policy matches independently on its subject set; section 4.2:
  the policy filters are the analogue of the role filters.
\<close>

definition withSubjects :: "Policy option \<Rightarrow> string list \<Rightarrow> Policy option" where
  "withSubjects p subjects =
     (case p of
        None \<Rightarrow> None
      | Some policy \<Rightarrow>
          if subjects = [] \<or> intersects (Subjects policy) subjects then Some policy else None)"

text \<open>
  Modelled from the spec: the method \<open>withResources\<close> of \<open>*Policy\<close> is not in the
  sources. Section 3: a policy matches independently on its resource set.
\<close>

definition withResources :: "Policy option \<Rightarrow> string list \<Rightarrow> Policy option" where
  "withResources p resources =
     (case p of
        None \<Rightarrow> None
      | Some policy \<Rightarrow>
          if resources = [] \<or> intersects (Resources policy) resources
          then Some policy else None)"

text \<open>
  Modelled from the spec: the method \<open>withActions\<close> of \<open>*Policy\<close> is not in the
  sources. Section 3: a policy matches independently on its action set.
\<close>

definition withActions :: "Policy option \<Rightarrow> string list \<Rightarrow> Policy option" where
  "withActions p actions =
     (case p of
        None \<Rightarrow> None
      | Some policy \<Rightarrow>
          if actions = [] \<or> intersects (Actions policy) actions then Some policy else None)"

text \<open>
  Modelled from the spec: the method \<open>withIDs\<close> of \<open>*Policy\<close> is not in the sources.
  Section 3: a policy matches independently on its ID set.
\<close>

definition Policy_withIDs :: "Policy option \<Rightarrow> string list \<Rightarrow> Policy option" where
  "Policy_withIDs p ids =
     (case p of
        None \<Rightarrow> None
      | Some policy \<Rightarrow>
          if ids = [] \<or> Policy.ID policy \<in> set ids then Some policy else None)"

section \<open>ListByQuery\<close>

text \<open>
  The two \<open>for ... range\<close> loops of ListByQuery: \<open>res\<close> starts empty and each record
  that comes back non-nil from the chain of filters is appended.
\<close>

fun roles_loop :: "query \<Rightarrow> Roles \<Rightarrow> Roles \<Rightarrow> Roles" where
  "roles_loop m [] res = res"
| "roles_loop m (role # rest) res =
     (case Role_withIDs (withMembers (Some role) (qget m ''member'')) (qget m ''id'') of
        None \<Rightarrow> roles_loop m rest res
      | Some filteredRole \<Rightarrow> roles_loop m rest (res @ [filteredRole]))"

fun policies_loop :: "query \<Rightarrow> Policies \<Rightarrow> Policies \<Rightarrow> Policies" where
  "policies_loop m [] res = res"
| "policies_loop m (policy # rest) res =
     (case Policy_withIDs
             (withActions
                (withResources
                   (withSubjects (Some policy) (qget m ''subject''))
                   (qget m ''resource''))
                (qget m ''action''))
             (qget m ''id'') of
        None \<Rightarrow> policies_loop m rest res
      | Some filteredPolicy \<Rightarrow> policies_loop m rest (res @ [filteredPolicy]))"

text \<open>
  \<open>res[start:end]\<close>. Go panics unless \<open>0 \<le> start \<le> end \<le> cap(res)\<close>; the model
  takes the capacity to be the length, which is exact whenever \<open>end \<le> len(res)\<close>.
\<close>

definition reslice :: "'a list \<Rightarrow> int \<times> int \<Rightarrow> panic + 'a list" where
  "reslice res w =
     (case w of (start, fin) \<Rightarrow>
        if 0 \<le> start \<and> start \<le> fin \<and> fin \<le> int (length res)
        then Inr (take (nat (fin - start)) (drop (nat start) res))
        else Inl SliceBoundsOutOfRange)"

text \<open>
  \<open>pagination.Index\<close> belongs to an imported library, so ListByQuery takes it as the
  parameter \<open>Index\<close>. \<open>window\<close> is the pair of statements
  \<open>start, end := pagination.Index(limit, offset, len(res)); res = res[start:end]\<close>.
\<close>

type_synonym index_fn = "int \<Rightarrow> int \<Rightarrow> int \<Rightarrow> int \<times> int"

definition window :: "index_fn \<Rightarrow> int \<Rightarrow> int \<Rightarrow> 'a list \<Rightarrow> panic + 'a list" where
  "window Index limit offset res = reslice res (Index limit offset (int (length res)))"

definition ListByQuery ::
  "index_fn \<Rightarrow> store \<Rightarrow> 'a ListFields_scheme \<Rightarrow> query \<Rightarrow> int \<Rightarrow> int
     \<Rightarrow> panic + (store \<times> 'a ListFields_scheme)" where
  "ListByQuery Index s l m offset limit =
     (case Value l of
        RolesPtr val \<Rightarrow>
          (case roles_at s val of
             None \<Rightarrow> Inl NilPointerDereference
           | Some rs \<Rightarrow>
               (case window Index limit offset (roles_loop m rs []) of
                  Inl p \<Rightarrow> Inl p
                | Inr res \<Rightarrow>
                    (case new_roles s res of (s', a) \<Rightarrow> Inr (s', l\<lparr>Value := RolesPtr a\<rparr>))))
      | PoliciesPtr val \<Rightarrow>
          (case policies_at s val of
             None \<Rightarrow> Inl NilPointerDereference
           | Some ps \<Rightarrow>
               (case window Index limit offset (policies_loop m ps []) of
                  Inl p \<Rightarrow> Inl p
                | Inr res \<Rightarrow>
                    (case new_policies s res of
                       (s', a) \<Rightarrow> Inr (s', l\<lparr>Value := PoliciesPtr a\<rparr>))))
      | OtherPtr val \<Rightarrow>
          Inl (UnknownListType ''storage:unable to cast list request to a known type!''))"

definition Filter ::
  "store \<Rightarrow> ListRequest \<Rightarrow> query \<Rightarrow> int \<Rightarrow> int \<Rightarrow> panic + (store \<times> ListRequest)" where
  "Filter s l m offset limit =
     (case FilterFunc l of
        None \<Rightarrow> Inr (s, l)
      | Some f \<Rightarrow>
          (case f s (ListFields.truncate l) m offset limit of
             Inl p \<Rightarrow> Inl p
           | Inr (s', d) \<Rightarrow> Inr (s', l\<lparr>Collection := Collection d, Value := Value d\<rparr>)))"

section \<open>The handlers\<close>

text \<open>
  The storage backend (interface \<open>Manager\<close>) is a collaborator: each method is a
  parameter. A method that fills its destination is a function on the store. One run of
  a handler calls the backend at most once, so the backend's own state needs no
  threading.
\<close>

record Manager =
  Manager_Get :: "string \<Rightarrow> string \<Rightarrow> iface \<Rightarrow> store \<Rightarrow> error + store"
  Manager_Delete :: "string \<Rightarrow> string \<Rightarrow> error option"
  Manager_List :: "string \<Rightarrow> iface \<Rightarrow> int \<Rightarrow> int \<Rightarrow> store \<Rightarrow> error + store"
  Manager_ListAll :: "string \<Rightarrow> iface \<Rightarrow> store \<Rightarrow> error + store"
  Manager_Upsert :: "string \<Rightarrow> string \<Rightarrow> iface \<Rightarrow> store \<Rightarrow> error + store"

text \<open>
  What a run of a handler does to the outside: the backend methods it called, what it
  handed to the response writer, both in order, and the panic that ended it, if any.
\<close>

datatype backend_call =
    GetCall string string iface
  | DeleteCall string string
  | ListCall string iface int int
  | ListAllCall string iface
  | UpsertCall string string iface

datatype response =
    WriteError error
  | Write "content option"
  | WriteHeader nat

record outcome =
  calls :: "backend_call list"
  written :: "response list"
  aborted :: "panic option"

definition StatusNoContent :: nat where
  "StatusNoContent = 204"

definition Handler_Get ::
  "Manager \<Rightarrow> ('r \<Rightarrow> error + GetRequest) \<Rightarrow> 'r \<Rightarrow> store \<Rightarrow> outcome" where
  "Handler_Get h factory r s =
     (case factory r of
        Inl err \<Rightarrow> \<lparr>calls = [], written = [WriteError err], aborted = None\<rparr>
      | Inr d \<Rightarrow>
          (case Manager_Get h (GetRequest.Collection d) (GetRequest.Key d)
                  (GetRequest.Value d) s of
             Inl err \<Rightarrow>
               \<lparr>calls = [GetCall (GetRequest.Collection d) (GetRequest.Key d)
                          (GetRequest.Value d)],
                written = [WriteError err], aborted = None\<rparr>
           | Inr s' \<Rightarrow>
               \<lparr>calls = [GetCall (GetRequest.Collection d) (GetRequest.Key d)
                          (GetRequest.Value d)],
                written = [Write (deref s' (GetRequest.Value d))], aborted = None\<rparr>))"

definition Handler_Delete ::
  "Manager \<Rightarrow> ('r \<Rightarrow> error + DeleteRequest) \<Rightarrow> 'r \<Rightarrow> outcome" where
  "Handler_Delete h factory r =
     (case factory r of
        Inl err \<Rightarrow> \<lparr>calls = [], written = [WriteError err], aborted = None\<rparr>
      | Inr d \<Rightarrow>
          (case Manager_Delete h (DeleteRequest.Collection d) (DeleteRequest.Key d) of
             Some err \<Rightarrow>
               \<lparr>calls = [DeleteCall (DeleteRequest.Collection d) (DeleteRequest.Key d)],
                written = [WriteError err], aborted = None\<rparr>
           | None \<Rightarrow>
               \<lparr>calls = [DeleteCall (DeleteRequest.Collection d) (DeleteRequest.Key d)],
                written = [WriteHeader StatusNoContent], aborted = None\<rparr>))"

definition Handler_Upsert ::
  "Manager \<Rightarrow> ('r \<Rightarrow> error + UpsertRequest) \<Rightarrow> 'r \<Rightarrow> store \<Rightarrow> outcome" where
  "Handler_Upsert h factory r s =
     (case factory r of
        Inl err \<Rightarrow> \<lparr>calls = [], written = [WriteError err], aborted = None\<rparr>
      | Inr u \<Rightarrow>
          (case Manager_Upsert h (UpsertRequest.Collection u) (UpsertRequest.Key u)
                  (UpsertRequest.Value u) s of
             Inl err \<Rightarrow>
               \<lparr>calls = [UpsertCall (UpsertRequest.Collection u) (UpsertRequest.Key u)
                          (UpsertRequest.Value u)],
                written = [WriteError err], aborted = None\<rparr>
           | Inr s' \<Rightarrow>
               \<lparr>calls = [UpsertCall (UpsertRequest.Collection u) (UpsertRequest.Key u)
                          (UpsertRequest.Value u)],
                written = [Write (deref s' (UpsertRequest.Value u))], aborted = None\<rparr>))"

subsection \<open>List\<close>

text \<open>
  \<open>strings.Split(s, "/")\<close>: the pieces of \<open>s\<close> between the separators. The result
  is never empty (lemma \<open>Split_not_Nil\<close>), so \<open>split[len(split)-1]\<close> is its last element.
\<close>

fun Split :: "string \<Rightarrow> char \<Rightarrow> string list" where
  "Split [] sep = [[]]"
| "Split (c # cs) sep =
     (if c = sep then [] # Split cs sep
      else (case Split cs sep of
              [] \<Rightarrow> [[c]]
            | piece # pieces \<Rightarrow> (c # piece) # pieces))"

text \<open>
  The branch of List that picks the backend call. \<open>isFilter\<close> starts false and each
  comma-ok test that finds its parameter sets it.
\<close>

definition fetch ::
  "Manager \<Rightarrow> 'a ListFields_scheme \<Rightarrow> query \<Rightarrow> int \<Rightarrow> int \<Rightarrow> store
     \<Rightarrow> backend_call \<times> (error + store)" where
  "fetch h l queryParams limit offset s =
     (let isFilter = False;
          split = Split (Collection l) CHR ''/'';
          collectionType = last split
      in if collectionType = ''policies'' then
           (let isFilter = (if present queryParams ''action'' then True else isFilter);
                isFilter = (if present queryParams ''subject'' then True else isFilter);
                isFilter = (if present queryParams ''resource'' then True else isFilter)
            in if isFilter
               then (ListAllCall (Collection l) (Value l),
                     Manager_ListAll h (Collection l) (Value l) s)
               else (ListCall (Collection l) (Value l) limit offset,
                     Manager_List h (Collection l) (Value l) limit offset s))
         else if collectionType = ''roles'' then
           (let isFilter = (if present queryParams ''member'' then True else isFilter)
            in if isFilter
               then (ListAllCall (Collection l) (Value l),
                     Manager_ListAll h (Collection l) (Value l) s)
               else (ListCall (Collection l) (Value l) limit offset,
                     Manager_List h (Collection l) (Value l) limit offset s))
         else (ListCall (Collection l) (Value l) limit offset,
               Manager_List h (Collection l) (Value l) limit offset s))"

text \<open>
  \<open>pagination.Parse\<close> is the parameter \<open>Parse\<close>. A panic inside the filter routine
  leaves the handler before anything is written.
\<close>

definition Handler_List ::
  "Manager \<Rightarrow> ('a Request_scheme \<Rightarrow> int \<Rightarrow> int \<Rightarrow> int \<Rightarrow> int \<times> int)
     \<Rightarrow> ('a Request_scheme \<Rightarrow> error + ListRequest) \<Rightarrow> 'a Request_scheme \<Rightarrow> store
     \<Rightarrow> outcome" where
  "Handler_List h Parse factory r s =
     (let queryParams = URL_Query r
      in case factory r of
           Inl err \<Rightarrow> \<lparr>calls = [], written = [WriteError err], aborted = None\<rparr>
         | Inr l \<Rightarrow>
             (case Parse r 100 0 500 of
                (limit, offset) \<Rightarrow>
                  (case fetch h l queryParams limit offset s of
                     (c, Inl err) \<Rightarrow>
                       \<lparr>calls = [c], written = [WriteError err], aborted = None\<rparr>
                   | (c, Inr s') \<Rightarrow>
                       (let m = URL_Query r
                        in case Filter s' l m offset limit of
                             Inl p \<Rightarrow> \<lparr>calls = [c], written = [], aborted = Some p\<rparr>
                           | Inr (s'', l') \<Rightarrow>
                               \<lparr>calls = [c], written = [Write (deref s'' (Value l'))],
                                aborted = None\<rparr>))))"

section \<open>The specification's reading\<close>

text \<open>
  Section 4.2, steps 1 to 3, in the specification's words: the kind of a collection is
  its last path segment; policies recognise action, subject and resource, roles
  recognise member, any other kind recognises nothing; \<open>isFilter\<close> holds iff a
  recognised parameter is in the query.
\<close>

definition spec_recognized :: "string \<Rightarrow> string list" where
  "spec_recognized kind =
     (if kind = ''policies'' then [''action'', ''subject'', ''resource'']
      else if kind = ''roles'' then [''member'']
      else [])"

definition spec_isFilter :: "string \<Rightarrow> query \<Rightarrow> bool" where
  "spec_isFilter collection q =
     list_ex (\<lambda>k. q k \<noteq> None) (spec_recognized (last (Split collection CHR ''/'')))"

text \<open>The membership tests of section 8, on sets.\<close>

definition spec_role_kept :: "string list \<Rightarrow> string list \<Rightarrow> Role \<Rightarrow> bool" where
  "spec_role_kept M I r =
     ((M = [] \<or> set (Members r) \<inter> set M \<noteq> {}) \<and> (I = [] \<or> Role.ID r \<in> set I))"

definition spec_policy_kept ::
  "string list \<Rightarrow> string list \<Rightarrow> string list \<Rightarrow> string list \<Rightarrow> Policy \<Rightarrow> bool" where
  "spec_policy_kept S R A I p =
     ((S = [] \<or> set (Subjects p) \<inter> set S \<noteq> {}) \<and>
      (R = [] \<or> set (Resources p) \<inter> set R \<noteq> {}) \<and>
      (A = [] \<or> set (Actions p) \<inter> set A \<noteq> {}) \<and>
      (I = [] \<or> Policy.ID p \<in> set I))"

text \<open>
  The sequences of section 8 that the windowing then cuts: the roles, and the policies,
  of a collection that pass every dimension with values in the query, in the order of
  the collection.
\<close>

definition spec_filtered_roles :: "query \<Rightarrow> Roles \<Rightarrow> Roles" where
  "spec_filtered_roles m rs =
     filter (spec_role_kept (qget m ''member'') (qget m ''id'')) rs"

definition spec_filtered_policies :: "query \<Rightarrow> Policies \<Rightarrow> Policies" where
  "spec_filtered_policies m ps =
     filter (spec_policy_kept (qget m ''subject'') (qget m ''resource'') (qget m ''action'')
               (qget m ''id'')) ps"

text \<open>
  What is asked of \<open>pagination.Index\<close> for a limit and an offset: for every size it
  returns a window inside the sequence.
\<close>

definition Index_in_bounds :: "index_fn \<Rightarrow> int \<Rightarrow> int \<Rightarrow> bool" where
  "Index_in_bounds Index limit offset =
     (\<forall>n\<ge>0. case Index limit offset n of
               (start, fin) \<Rightarrow> 0 \<le> start \<and> start \<le> fin \<and> fin \<le> n)"

text \<open>
  Modelled from the spec: \<open>pagination.Index\<close> is a function of the imported package
  \<open>github.com/ory/x/pagination\<close> and is not in the sources. Section 2: given limit,
  offset and a collection size it computes a valid \<open>[start, end)\<close> window; glossary:
  windowing selects the sub-sequence \<open>[offset, offset + limit)\<close>. An offset beyond
  the size gives the empty window at the end, a window that would pass the size is cut
  there. The specification speaks of the limit and offset that \<open>pagination.Parse\<close>
  produces, which are not negative.
\<close>

definition pagination_Index :: index_fn where
  "pagination_Index limit offset len =
     (if offset > len then (len, len)
      else if limit + offset > len then (offset, len)
      else (offset, offset + limit))"

section \<open>Example data\<close>

text \<open>The records of the examples in section 8 of the specification.\<close>

definition ex_r1 :: Role where
  "ex_r1 = \<lparr>Role.ID = ''r1'', Members = [''alice'']\<rparr>"

definition ex_r2 :: Role where
  "ex_r2 = \<lparr>Role.ID = ''r2'', Members = [''bob'']\<rparr>"

definition ex_p1 :: Policy where
  "ex_p1 = \<lparr>Policy.ID = ''p1'', Subjects = [''s1''], Resources = [''res1''],
            Actions = [''read'']\<rparr>"

definition ex_store :: store where
  "ex_store = \<lparr>roles_heap = [[ex_r1, ex_r2]], policies_heap = [[ex_p1]],
               other_heap = [''{}'']\<rparr>"

text \<open>
  A backend whose destinations already hold what it would fetch, one that fails every
  call, a \<open>Parse\<close> that finds \<open>limit=2&offset=1\<close> and one that finds neither
  parameter; then one request of each kind.
\<close>

definition ex_backend :: Manager where
  "ex_backend =
     \<lparr>Manager_Get = (\<lambda>c k v s. Inr s),
      Manager_Delete = (\<lambda>c k. None),
      Manager_List = (\<lambda>c v limit offset s. Inr s),
      Manager_ListAll = (\<lambda>c v s. Inr s),
      Manager_Upsert = (\<lambda>c k v s. Inr s)\<rparr>"

definition ex_down :: Manager where
  "ex_down =
     \<lparr>Manager_Get = (\<lambda>c k v s. Inl (Error ''down'')),
      Manager_Delete = (\<lambda>c k. Some (Error ''down'')),
      Manager_List = (\<lambda>c v limit offset s. Inl (Error ''down'')),
      Manager_ListAll = (\<lambda>c v s. Inl (Error ''down'')),
      Manager_Upsert = (\<lambda>c k v s. Inl (Error ''down''))\<rparr>"

text \<open>
  A backend that pages: \<open>List\<close> leaves the page \<open>[offset, offset + limit)\<close> of the
  collection in the destination, \<open>ListAll\<close> leaves all of it.
\<close>

definition ex_page :: "int \<Rightarrow> int \<Rightarrow> 'a list \<Rightarrow> 'a list" where
  "ex_page limit offset xs = take (nat limit) (drop (nat offset) xs)"

definition ex_paging :: Manager where
  "ex_paging =
     \<lparr>Manager_Get = (\<lambda>c k v s. Inr s),
      Manager_Delete = (\<lambda>c k. None),
      Manager_List = (\<lambda>c v limit offset s.
        Inr (case v of
               RolesPtr a \<Rightarrow>
                 s\<lparr>roles_heap := (roles_heap s)[a := ex_page limit offset (roles_heap s ! a)]\<rparr>
             | PoliciesPtr a \<Rightarrow>
                 s\<lparr>policies_heap :=
                    (policies_heap s)[a := ex_page limit offset (policies_heap s ! a)]\<rparr>
             | OtherPtr a \<Rightarrow> s)),
      Manager_ListAll = (\<lambda>c v s. Inr s),
      Manager_Upsert = (\<lambda>c k v s. Inr s)\<rparr>"

definition ex_paged_request :: "string \<Rightarrow> string list \<Rightarrow> Request" where
  "ex_paged_request k vs =
     \<lparr>URL_Query = [''limit'' \<mapsto> [''2''], ''offset'' \<mapsto> [''1''], k \<mapsto> vs]\<rparr>"

text \<open>A request whose Value is a nil pointer to Roles: no collection is at address 5.\<close>

definition ex_nil :: ListFields where
  "ex_nil = \<lparr>Collection = ''/store/roles'', Value = RolesPtr 5\<rparr>"

definition ex_Parse :: "Request \<Rightarrow> int \<Rightarrow> int \<Rightarrow> int \<Rightarrow> int \<times> int" where
  "ex_Parse r defaultLimit defaultOffset maxLimit = (2, 1)"

definition ex_Parse_default :: "Request \<Rightarrow> int \<Rightarrow> int \<Rightarrow> int \<Rightarrow> int \<times> int" where
  "ex_Parse_default r defaultLimit defaultOffset maxLimit = (defaultLimit, defaultOffset)"

definition ex_get :: GetRequest where
  "ex_get = \<lparr>GetRequest.Collection = ''/store/roles'', GetRequest.Key = ''r1'',
             GetRequest.Value = RolesPtr 0\<rparr>"

definition ex_delete :: DeleteRequest where
  "ex_delete = \<lparr>DeleteRequest.Collection = ''/store/roles'', DeleteRequest.Key = ''r1''\<rparr>"

definition ex_upsert :: UpsertRequest where
  "ex_upsert = \<lparr>UpsertRequest.Collection = ''/store/policies'', UpsertRequest.Key = ''p1'',
                UpsertRequest.Value = PoliciesPtr 0\<rparr>"

definition ex_request :: "string \<Rightarrow> string list \<Rightarrow> Request" where
  "ex_request k vs = \<lparr>URL_Query = [k \<mapsto> vs]\<rparr>"

definition ex_list :: "string \<Rightarrow> iface \<Rightarrow> FilterFunc option \<Rightarrow> Request \<Rightarrow> error + ListRequest" where
  "ex_list c v f r = Inr \<lparr>Collection = c, Value = v, FilterFunc = f\<rparr>"

section \<open>Lemmas about the model\<close>

lemma intersects_iff: "intersects xs ys \<longleftrightarrow> set xs \<inter> set ys \<noteq> {}"
  by (auto simp: intersects_def list_ex_iff)

lemma role_chain:
  "Role_withIDs (withMembers (Some r) M) I = (if spec_role_kept M I r then Some r else None)"
  by (simp add: Role_withIDs_def withMembers_def spec_role_kept_def intersects_iff)

lemma roles_loop_filter:
  "roles_loop m rs res = res @ filter (spec_role_kept (qget m ''member'') (qget m ''id'')) rs"
  by (induction rs arbitrary: res) (simp_all add: role_chain)

lemma policy_chain:
  "Policy_withIDs (withActions (withResources (withSubjects (Some p) S) R) A) I =
     (if spec_policy_kept S R A I p then Some p else None)"
  by (simp add: Policy_withIDs_def withActions_def withResources_def withSubjects_def
      spec_policy_kept_def intersects_iff)

lemma policies_loop_filter:
  "policies_loop m ps res =
     res @ filter (spec_policy_kept (qget m ''subject'') (qget m ''resource'') (qget m ''action'')
                     (qget m ''id'')) ps"
  by (induction ps arbitrary: res) (simp_all add: policy_chain)

lemma Split_not_Nil: "Split s sep \<noteq> []"
  by (induction s) (auto split: list.splits)

lemma ListByQuery_Roles:
  "Value l = RolesPtr a \<Longrightarrow> roles_at s a = Some rs \<Longrightarrow>
   ListByQuery Index s l m offset limit =
     (case window Index limit offset (roles_loop m rs []) of
        Inl p \<Rightarrow> Inl p
      | Inr res \<Rightarrow>
          Inr (s\<lparr>roles_heap := roles_heap s @ [res]\<rparr>,
               l\<lparr>Value := RolesPtr (length (roles_heap s))\<rparr>))"
  by (simp add: ListByQuery_def new_roles_def split: sum.splits)

lemma ListByQuery_Policies:
  "Value l = PoliciesPtr a \<Longrightarrow> policies_at s a = Some ps \<Longrightarrow>
   ListByQuery Index s l m offset limit =
     (case window Index limit offset (policies_loop m ps []) of
        Inl p \<Rightarrow> Inl p
      | Inr res \<Rightarrow>
          Inr (s\<lparr>policies_heap := policies_heap s @ [res]\<rparr>,
               l\<lparr>Value := PoliciesPtr (length (policies_heap s))\<rparr>))"
  by (simp add: ListByQuery_def new_policies_def split: sum.splits)

lemma ListByQuery_truncate:
  "ListByQuery Index s (ListFields.truncate l) m offset limit =
     (case ListByQuery Index s l m offset limit of
        Inl p \<Rightarrow> Inl p
      | Inr (s', l') \<Rightarrow> Inr (s', ListFields.truncate l'))"
  by (simp add: ListByQuery_def ListFields.truncate_def new_roles_def new_policies_def
      split: iface.splits option.splits sum.splits)

lemma Filter_ListByQuery:
  "FilterFunc l = Some (ListByQuery Index) \<Longrightarrow>
   Filter s l m offset limit = ListByQuery Index s l m offset limit"
  by (simp add: Filter_def ListByQuery_def ListFields.truncate_def new_roles_def new_policies_def
      split: iface.splits option.splits sum.splits)

lemma window_in_bounds:
  "Index limit offset (int (length res)) = (start, fin) \<Longrightarrow>
   0 \<le> start \<Longrightarrow> start \<le> fin \<Longrightarrow> fin \<le> int (length res) \<Longrightarrow>
   window Index limit offset res = Inr (take (nat (fin - start)) (drop (nat start) res))"
  by (simp add: window_def reslice_def)

lemma qget_absent: "qget (m(k := None)) k' = (if k' = k then [] else qget m k')"
  by (simp add: qget_def)

lemma fetch_call:
  "fst (fetch h l q limit offset s) =
     (if spec_isFilter (Collection l) q then ListAllCall (Collection l) (Value l)
      else ListCall (Collection l) (Value l) limit offset)"
  by (simp add: fetch_def spec_isFilter_def spec_recognized_def present_def Let_def
      split: option.splits)

lemma Handler_List_calls:
  "factory r = Inr l \<Longrightarrow> Parse r 100 0 500 = (limit, offset) \<Longrightarrow>
   calls (Handler_List h Parse factory r s) = [fst (fetch h l (URL_Query r) limit offset s)]"
  by (simp add: Handler_List_def Let_def split: prod.splits sum.splits)

lemma last_segment_policies: "last (Split ''/store/policies'' CHR ''/'') = ''policies''"
  by code_simp

lemma last_segment_roles: "last (Split ''/store/roles'' CHR ''/'') = ''roles''"
  by code_simp

lemma last_segment_other: "last (Split ''/store/rolesx'' CHR ''/'') = ''rolesx''"
  by code_simp

lemma policy_kept_weaken:
  assumes "spec_policy_kept S R A I p"
    and "S' = [] \<or> S' = S" "R' = [] \<or> R' = R" "A' = [] \<or> A' = A" "I' = [] \<or> I' = I"
  shows "spec_policy_kept S' R' A' I' p"
proof -
  from assms(1) have s: "S = [] \<or> set (Subjects p) \<inter> set S \<noteq> {}"
    and r: "R = [] \<or> set (Resources p) \<inter> set R \<noteq> {}"
    and a: "A = [] \<or> set (Actions p) \<inter> set A \<noteq> {}"
    and i: "I = [] \<or> Policy.ID p \<in> set I"
    by (simp_all add: spec_policy_kept_def)
  from s assms(2) have s': "S' = [] \<or> set (Subjects p) \<inter> set S' \<noteq> {}" by blast
  from r assms(3) have r': "R' = [] \<or> set (Resources p) \<inter> set R' \<noteq> {}" by blast
  from a assms(4) have a': "A' = [] \<or> set (Actions p) \<inter> set A' \<noteq> {}" by blast
  from i assms(5) have i': "I' = [] \<or> Policy.ID p \<in> set I'" by blast
  from s' r' a' i' show ?thesis
    by (simp add: spec_policy_kept_def)
qed

lemma Handler_List_fetched:
  "factory r = Inr l \<Longrightarrow> Parse r 100 0 500 = (limit, offset) \<Longrightarrow>
   fetch h l (URL_Query r) limit offset s = (c, Inr s') \<Longrightarrow>
   Handler_List h Parse factory r s =
     (case Filter s' l (URL_Query r) offset limit of
        Inl p \<Rightarrow> \<lparr>calls = [c], written = [], aborted = Some p\<rparr>
      | Inr (s'', l') \<Rightarrow>
          \<lparr>calls = [c], written = [Write (deref s'' (Value l'))], aborted = None\<rparr>)"
  by (simp add: Handler_List_def Let_def)

lemma deref_new_roles:
  "deref (s\<lparr>roles_heap := roles_heap s @ [res]\<rparr>) (RolesPtr (length (roles_heap s))) =
     Some (RolesVal res)"
  by (simp add: deref_def roles_at_def cell_def)

lemma deref_new_policies:
  "deref (s\<lparr>policies_heap := policies_heap s @ [res]\<rparr>)
     (PoliciesPtr (length (policies_heap s))) = Some (PoliciesVal res)"
  by (simp add: deref_def policies_at_def cell_def)

lemma cell_append: "cell h a = Some x \<Longrightarrow> cell (h @ [y]) a = Some x"
  by (auto simp: cell_def nth_append split: if_splits)

lemma cell_fresh: "cell h (length h) = None"
  by (simp add: cell_def)

lemma deref_kept_roles:
  "deref s v \<noteq> None \<Longrightarrow> deref (s\<lparr>roles_heap := roles_heap s @ [res]\<rparr>) v = deref s v"
  by (cases v) (auto simp: deref_def roles_at_def policies_at_def dest: cell_append)

lemma deref_kept_policies:
  "deref s v \<noteq> None \<Longrightarrow> deref (s\<lparr>policies_heap := policies_heap s @ [res]\<rparr>) v = deref s v"
  by (cases v) (auto simp: deref_def roles_at_def policies_at_def dest: cell_append)

lemma deref_fresh_roles: "deref s (RolesPtr (length (roles_heap s))) = None"
  by (simp add: deref_def roles_at_def cell_fresh)

lemma deref_fresh_policies: "deref s (PoliciesPtr (length (policies_heap s))) = None"
  by (simp add: deref_def policies_at_def cell_fresh)

lemma ListByQuery_cases:
  assumes "ListByQuery Index s l m offset limit = Inr (s', l')"
  obtains (Roles) a rs res where "Value l = RolesPtr a" "roles_at s a = Some rs"
      "window Index limit offset (roles_loop m rs []) = Inr res"
      "s' = s\<lparr>roles_heap := roles_heap s @ [res]\<rparr>"
      "l' = l\<lparr>Value := RolesPtr (length (roles_heap s))\<rparr>"
    | (Policies) a ps res where "Value l = PoliciesPtr a" "policies_at s a = Some ps"
      "window Index limit offset (policies_loop m ps []) = Inr res"
      "s' = s\<lparr>policies_heap := policies_heap s @ [res]\<rparr>"
      "l' = l\<lparr>Value := PoliciesPtr (length (policies_heap s))\<rparr>"
  using assms
  by (auto simp: ListByQuery_def new_roles_def new_policies_def
      split: iface.splits option.splits sum.splits)

lemma ListByQuery_example_run:
  "ListByQuery pagination_Index ex_store \<lparr>Collection = ''/store/roles'', Value = RolesPtr 0\<rparr>
     [''member'' \<mapsto> [''alice'']] 0 100 =
   Inr (ex_store\<lparr>roles_heap := [[ex_r1, ex_r2], [ex_r1]]\<rparr>,
        \<lparr>Collection = ''/store/roles'', Value = RolesPtr 1\<rparr>)"
proof -
  have r: "roles_at ex_store 0 = Some [ex_r1, ex_r2]"
    by (simp add: roles_at_def cell_def ex_store_def)
  have f: "roles_loop [''member'' \<mapsto> [''alice'']] [ex_r1, ex_r2] [] = [ex_r1]"
    by (simp add: roles_loop_filter spec_role_kept_def qget_def ex_r1_def ex_r2_def)
  have w: "window pagination_Index 100 0 [ex_r1] = Inr [ex_r1]"
    by (simp add: window_def reslice_def pagination_Index_def)
  have h: "roles_heap ex_store = [[ex_r1, ex_r2]]"
    by (simp add: ex_store_def)
  have "ListByQuery pagination_Index ex_store
          \<lparr>Collection = ''/store/roles'', Value = RolesPtr 0\<rparr> [''member'' \<mapsto> [''alice'']] 0 100 =
        (case window pagination_Index 100 0
                (roles_loop [''member'' \<mapsto> [''alice'']] [ex_r1, ex_r2] []) of
           Inl p \<Rightarrow> Inl p
         | Inr res \<Rightarrow>
             Inr (ex_store\<lparr>roles_heap := roles_heap ex_store @ [res]\<rparr>,
                  \<lparr>Collection = ''/store/roles'', Value = RolesPtr 0\<rparr>
                  \<lparr>Value := RolesPtr (length (roles_heap ex_store))\<rparr>))"
    by (rule ListByQuery_Roles [where a = 0]) (simp_all add: r)
  also have "\<dots> = Inr (ex_store\<lparr>roles_heap := [[ex_r1, ex_r2], [ex_r1]]\<rparr>,
                      \<lparr>Collection = ''/store/roles'', Value = RolesPtr 1\<rparr>)"
    unfolding f w h by simp
  finally show ?thesis .
qed

lemma Handler_Get_cases:
  "(factory r = Inl e \<longrightarrow>
      Handler_Get h factory r s = \<lparr>calls = [], written = [WriteError e], aborted = None\<rparr>) \<and>
   (factory r = Inr d \<and>
    Manager_Get h (GetRequest.Collection d) (GetRequest.Key d) (GetRequest.Value d) s = Inl e \<longrightarrow>
      Handler_Get h factory r s =
        \<lparr>calls = [GetCall (GetRequest.Collection d) (GetRequest.Key d) (GetRequest.Value d)],
         written = [WriteError e], aborted = None\<rparr>) \<and>
   (factory r = Inr d \<and>
    Manager_Get h (GetRequest.Collection d) (GetRequest.Key d) (GetRequest.Value d) s = Inr s' \<longrightarrow>
      Handler_Get h factory r s =
        \<lparr>calls = [GetCall (GetRequest.Collection d) (GetRequest.Key d) (GetRequest.Value d)],
         written = [Write (deref s' (GetRequest.Value d))], aborted = None\<rparr>)"
  by (simp add: Handler_Get_def)

lemma Handler_Delete_cases:
  "(factory r = Inl e \<longrightarrow>
      Handler_Delete h factory r = \<lparr>calls = [], written = [WriteError e], aborted = None\<rparr>) \<and>
   (factory r = Inr d \<and>
    Manager_Delete h (DeleteRequest.Collection d) (DeleteRequest.Key d) = Some e \<longrightarrow>
      Handler_Delete h factory r =
        \<lparr>calls = [DeleteCall (DeleteRequest.Collection d) (DeleteRequest.Key d)],
         written = [WriteError e], aborted = None\<rparr>) \<and>
   (factory r = Inr d \<and>
    Manager_Delete h (DeleteRequest.Collection d) (DeleteRequest.Key d) = None \<longrightarrow>
      Handler_Delete h factory r =
        \<lparr>calls = [DeleteCall (DeleteRequest.Collection d) (DeleteRequest.Key d)],
         written = [WriteHeader 204], aborted = None\<rparr>)"
  by (simp add: Handler_Delete_def StatusNoContent_def)

lemma Handler_Upsert_cases:
  "(factory r = Inl e \<longrightarrow>
      Handler_Upsert h factory r s = \<lparr>calls = [], written = [WriteError e], aborted = None\<rparr>) \<and>
   (factory r = Inr u \<and>
    Manager_Upsert h (UpsertRequest.Collection u) (UpsertRequest.Key u) (UpsertRequest.Value u) s =
      Inl e \<longrightarrow>
      Handler_Upsert h factory r s =
        \<lparr>calls = [UpsertCall (UpsertRequest.Collection u) (UpsertRequest.Key u)
                   (UpsertRequest.Value u)],
         written = [WriteError e], aborted = None\<rparr>) \<and>
   (factory r = Inr u \<and>
    Manager_Upsert h (UpsertRequest.Collection u) (UpsertRequest.Key u) (UpsertRequest.Value u) s =
      Inr s' \<longrightarrow>
      Handler_Upsert h factory r s =
        \<lparr>calls = [UpsertCall (UpsertRequest.Collection u) (UpsertRequest.Key u)
                   (UpsertRequest.Value u)],
         written = [Write (deref s' (UpsertRequest.Value u))], aborted = None\<rparr>)"
  by (simp add: Handler_Upsert_def)

lemma fetch_result:
  "snd (fetch h l q limit offset s) =
     (if spec_isFilter (Collection l) q then Manager_ListAll h (Collection l) (Value l) s
      else Manager_List h (Collection l) (Value l) limit offset s)"
  by (simp add: fetch_def spec_isFilter_def spec_recognized_def present_def Let_def
      split: option.splits)

lemma fetch_eq:
  "fetch h l q limit offset s =
     (if spec_isFilter (Collection l) q
      then (ListAllCall (Collection l) (Value l), Manager_ListAll h (Collection l) (Value l) s)
      else (ListCall (Collection l) (Value l) limit offset,
            Manager_List h (Collection l) (Value l) limit offset s))"
  using fetch_call [of h l q limit offset s] fetch_result [of h l q limit offset s]
  by (cases "fetch h l q limit offset s") (simp split: if_splits)

lemma Handler_List_after_factory:
  "factory r = Inr l \<Longrightarrow> Parse r 100 0 500 = (limit, offset) \<Longrightarrow>
   Handler_List h Parse factory r s =
     (case fetch h l (URL_Query r) limit offset s of
        (c, Inl err) \<Rightarrow> \<lparr>calls = [c], written = [WriteError err], aborted = None\<rparr>
      | (c, Inr s') \<Rightarrow>
          (case Filter s' l (URL_Query r) offset limit of
             Inl p \<Rightarrow> \<lparr>calls = [c], written = [], aborted = Some p\<rparr>
           | Inr (s'', l') \<Rightarrow>
               \<lparr>calls = [c], written = [Write (deref s'' (Value l'))], aborted = None\<rparr>))"
  by (simp add: Handler_List_def Let_def)

lemma roles_loop_spec: "roles_loop m rs [] = spec_filtered_roles m rs"
  by (simp add: roles_loop_filter spec_filtered_roles_def)

lemma policies_loop_spec: "policies_loop m ps [] = spec_filtered_policies m ps"
  by (simp add: policies_loop_filter spec_filtered_policies_def)

lemma window_result:
  assumes "window Index limit offset xs = Inr res"
  obtains start fin where "Index limit offset (int (length xs)) = (start, fin)"
    "0 \<le> start" "start \<le> fin" "fin \<le> int (length xs)"
    "res = take (nat (fin - start)) (drop (nat start) xs)"
proof -
  obtain start fin where w: "Index limit offset (int (length xs)) = (start, fin)"
    by (cases "Index limit offset (int (length xs))")
  with assms have "0 \<le> start \<and> start \<le> fin \<and> fin \<le> int (length xs) \<and>
      res = take (nat (fin - start)) (drop (nat start) xs)"
    by (auto simp: window_def reslice_def split: if_splits)
  with w that show ?thesis
    by blast
qed

lemma set_slice: "set (take n (drop k xs)) \<subseteq> set xs"
  using set_take_subset [of n "drop k xs"] set_drop_subset [of k xs]
  by blast

lemma ex_roles_cell: "roles_at ex_store 0 = Some [ex_r1, ex_r2]"
  by (simp add: roles_at_def cell_def ex_store_def)

lemma ex_policies_cell: "policies_at ex_store 0 = Some [ex_p1]"
  by (simp add: policies_at_def cell_def ex_store_def)

lemma ex_filtered_roles:
  "spec_filtered_roles [''member'' \<mapsto> [''alice'']] [ex_r1, ex_r2] = [ex_r1]"
  by (simp add: spec_filtered_roles_def spec_role_kept_def qget_def ex_r1_def ex_r2_def)

lemma ex_filtered_policies:
  "spec_filtered_policies [''action'' \<mapsto> [''read'']] [ex_p1] = [ex_p1]"
  by (simp add: spec_filtered_policies_def spec_policy_kept_def qget_def ex_p1_def)

lemma ex_heaps: "roles_heap ex_store = [[ex_r1, ex_r2]]" "policies_heap ex_store = [[ex_p1]]"
  by (simp_all add: ex_store_def)

lemma window_total:
  assumes "Index_in_bounds Index limit offset"
  shows "\<exists>ys. window Index limit offset xs = Inr ys"
proof -
  obtain start fin where w: "Index limit offset (int (length xs)) = (start, fin)"
    by (cases "Index limit offset (int (length xs))")
  from assms have "case Index limit offset (int (length xs)) of
      (start, fin) \<Rightarrow> 0 \<le> start \<and> start \<le> fin \<and> fin \<le> int (length xs)"
    by (simp add: Index_in_bounds_def)
  with w show ?thesis
    by (simp add: window_def reslice_def)
qed

lemma ex_Index_in_bounds: "Index_in_bounds pagination_Index 100 0"
  by (simp add: Index_in_bounds_def pagination_Index_def)

section \<open>The claims\<close>

subsection \<open>C1: which backend fetch List makes\<close>

text \<open>
  Claim C1. Once the factory has produced the ListRequest, List calls the backend
  exactly once. If a parameter recognised for the kind of the collection is in the query
  (action, subject or resource for a last path segment "policies", member for "roles",
  nothing for any other kind), the call is \<open>ListAll\<close> and what the handler goes on
  with is the result of \<open>ListAll\<close>; otherwise the call is \<open>List\<close> with the parsed
  limit and offset and the handler goes on with its result. A query that holds no
  parameter but \<open>id\<close> never counts as a filter.
\<close>

theorem List_uses_ListAll_iff_isFilter:
  assumes req: "factory r = Inr l" and parse: "Parse r 100 0 500 = (limit, offset)"
  shows "(spec_isFilter (Collection l) (URL_Query r) \<longrightarrow>
            fetch h l (URL_Query r) limit offset s =
              (ListAllCall (Collection l) (Value l),
               Manager_ListAll h (Collection l) (Value l) s) \<and>
            Handler_List h Parse factory r s =
              (case Manager_ListAll h (Collection l) (Value l) s of
                 Inl err \<Rightarrow>
                   \<lparr>calls = [ListAllCall (Collection l) (Value l)],
                    written = [WriteError err], aborted = None\<rparr>
               | Inr s' \<Rightarrow>
                   (case Filter s' l (URL_Query r) offset limit of
                      Inl p \<Rightarrow>
                        \<lparr>calls = [ListAllCall (Collection l) (Value l)], written = [],
                         aborted = Some p\<rparr>
                    | Inr (s'', l') \<Rightarrow>
                        \<lparr>calls = [ListAllCall (Collection l) (Value l)],
                         written = [Write (deref s'' (Value l'))], aborted = None\<rparr>))) \<and>
         (\<not> spec_isFilter (Collection l) (URL_Query r) \<longrightarrow>
            fetch h l (URL_Query r) limit offset s =
              (ListCall (Collection l) (Value l) limit offset,
               Manager_List h (Collection l) (Value l) limit offset s) \<and>
            Handler_List h Parse factory r s =
              (case Manager_List h (Collection l) (Value l) limit offset s of
                 Inl err \<Rightarrow>
                   \<lparr>calls = [ListCall (Collection l) (Value l) limit offset],
                    written = [WriteError err], aborted = None\<rparr>
               | Inr s' \<Rightarrow>
                   (case Filter s' l (URL_Query r) offset limit of
                      Inl p \<Rightarrow>
                        \<lparr>calls = [ListCall (Collection l) (Value l) limit offset],
                         written = [], aborted = Some p\<rparr>
                    | Inr (s'', l') \<Rightarrow>
                        \<lparr>calls = [ListCall (Collection l) (Value l) limit offset],
                         written = [Write (deref s'' (Value l'))], aborted = None\<rparr>))) \<and>
         (dom q \<subseteq> {''id''} \<longrightarrow> \<not> spec_isFilter c q)"
proof (intro conjI impI)
  note hl = Handler_List_after_factory [where factory = factory and Parse = Parse, OF req parse]
  {
    assume f: "spec_isFilter (Collection l) (URL_Query r)"
    then show a: "fetch h l (URL_Query r) limit offset s =
        (ListAllCall (Collection l) (Value l), Manager_ListAll h (Collection l) (Value l) s)"
      by (simp add: fetch_eq)
    show "Handler_List h Parse factory r s =
        (case Manager_ListAll h (Collection l) (Value l) s of
           Inl err \<Rightarrow>
             \<lparr>calls = [ListAllCall (Collection l) (Value l)],
              written = [WriteError err], aborted = None\<rparr>
         | Inr s' \<Rightarrow>
             (case Filter s' l (URL_Query r) offset limit of
                Inl p \<Rightarrow>
                  \<lparr>calls = [ListAllCall (Collection l) (Value l)], written = [],
                   aborted = Some p\<rparr>
              | Inr (s'', l') \<Rightarrow>
                  \<lparr>calls = [ListAllCall (Collection l) (Value l)],
                   written = [Write (deref s'' (Value l'))], aborted = None\<rparr>))"
      unfolding hl a by (simp split: sum.splits)
  }
  {
    assume f: "\<not> spec_isFilter (Collection l) (URL_Query r)"
    then show a: "fetch h l (URL_Query r) limit offset s =
        (ListCall (Collection l) (Value l) limit offset,
         Manager_List h (Collection l) (Value l) limit offset s)"
      by (simp add: fetch_eq)
    show "Handler_List h Parse factory r s =
        (case Manager_List h (Collection l) (Value l) limit offset s of
           Inl err \<Rightarrow>
             \<lparr>calls = [ListCall (Collection l) (Value l) limit offset],
              written = [WriteError err], aborted = None\<rparr>
         | Inr s' \<Rightarrow>
             (case Filter s' l (URL_Query r) offset limit of
                Inl p \<Rightarrow>
                  \<lparr>calls = [ListCall (Collection l) (Value l) limit offset],
                   written = [], aborted = Some p\<rparr>
              | Inr (s'', l') \<Rightarrow>
                  \<lparr>calls = [ListCall (Collection l) (Value l) limit offset],
                   written = [Write (deref s'' (Value l'))], aborted = None\<rparr>))"
      unfolding hl a by (simp split: sum.splits)
  }
  {
    assume d: "dom q \<subseteq> {''id''}"
    have "q k = None" if "k \<noteq> ''id''" for k
      using d that by (auto simp: dom_def)
    then have "q ''action'' = None" "q ''subject'' = None" "q ''resource'' = None"
      "q ''member'' = None"
      by simp_all
    then show "\<not> spec_isFilter c q"
      by (simp add: spec_isFilter_def spec_recognized_def)
  }
qed

theorem List_uses_ListAll_iff_isFilter_witness:
  "Handler_List ex_paging ex_Parse (ex_list ''/store/policies'' (PoliciesPtr 0) None)
     (ex_paged_request ''subject'' [''s1'']) ex_store =
     \<lparr>calls = [ListAllCall ''/store/policies'' (PoliciesPtr 0)],
      written = [Write (Some (PoliciesVal [ex_p1]))], aborted = None\<rparr> \<and>
   Handler_List ex_paging ex_Parse (ex_list ''/store/roles'' (RolesPtr 0) None)
     (ex_paged_request ''member'' [''alice'']) ex_store =
     \<lparr>calls = [ListAllCall ''/store/roles'' (RolesPtr 0)],
      written = [Write (Some (RolesVal [ex_r1, ex_r2]))], aborted = None\<rparr> \<and>
   Handler_List ex_paging ex_Parse (ex_list ''/store/roles'' (RolesPtr 0) None)
     (ex_paged_request ''id'' [''r1'']) ex_store =
     \<lparr>calls = [ListCall ''/store/roles'' (RolesPtr 0) 2 1],
      written = [Write (Some (RolesVal [ex_r2]))], aborted = None\<rparr> \<and>
   Handler_List ex_paging ex_Parse (ex_list ''/store/rolesx'' (RolesPtr 0) None)
     (ex_paged_request ''member'' [''alice'']) ex_store =
     \<lparr>calls = [ListCall ''/store/rolesx'' (RolesPtr 0) 2 1],
      written = [Write (Some (RolesVal [ex_r2]))], aborted = None\<rparr> \<and>
   \<not> spec_isFilter ''/store/roles'' [''id'' \<mapsto> [''r1'']]"
proof -
  note t = List_uses_ListAll_iff_isFilter
      [where Parse = ex_Parse and limit = 2 and offset = 1 and h = ex_paging and s = ex_store
         and q = "[''id'' \<mapsto> [''r1'']]" and c = "''/store/roles''"]
  have req: "ex_list c v None r = Inr \<lparr>Collection = c, Value = v, FilterFunc = None\<rparr>" for c v r
    by (simp add: ex_list_def)
  have parse: "ex_Parse r 100 0 500 = (2, 1)" for r
    by (simp add: ex_Parse_def)
  have all: "Manager_ListAll ex_paging c v s = Inr s" for c v s
    by (simp add: ex_paging_def)
  have page: "Manager_List ex_paging c (RolesPtr 0) 2 1 ex_store =
      Inr (ex_store\<lparr>roles_heap := [[ex_r2]]\<rparr>)" for c
    by (simp add: ex_paging_def ex_page_def ex_store_def)
  have idf: "Filter s \<lparr>Collection = c, Value = v, FilterFunc = None\<rparr> m offset limit =
      Inr (s, \<lparr>Collection = c, Value = v, FilterFunc = None\<rparr>)" for s c v m offset limit
    by (simp add: Filter_def)
  have d1: "deref ex_store (PoliciesPtr 0) = Some (PoliciesVal [ex_p1])"
    "deref ex_store (RolesPtr 0) = Some (RolesVal [ex_r1, ex_r2])"
    "deref (ex_store\<lparr>roles_heap := [[ex_r2]]\<rparr>) (RolesPtr 0) = Some (RolesVal [ex_r2])"
    by (simp_all add: deref_def roles_at_def policies_at_def cell_def ex_store_def)
  have f1: "spec_isFilter ''/store/policies'' (URL_Query (ex_paged_request ''subject'' [''s1'']))"
    by (simp add: spec_isFilter_def last_segment_policies spec_recognized_def
        ex_paged_request_def)
  have f2: "spec_isFilter ''/store/roles'' (URL_Query (ex_paged_request ''member'' [''alice'']))"
    by (simp add: spec_isFilter_def last_segment_roles spec_recognized_def ex_paged_request_def)
  have f3: "\<not> spec_isFilter ''/store/roles'' (URL_Query (ex_paged_request ''id'' [''r1'']))"
    by (simp add: spec_isFilter_def last_segment_roles spec_recognized_def ex_paged_request_def)
  have f4: "\<not> spec_isFilter ''/store/rolesx''
      (URL_Query (ex_paged_request ''member'' [''alice'']))"
    by (simp add: spec_isFilter_def last_segment_other spec_recognized_def ex_paged_request_def)
  have d: "dom [''id'' \<mapsto> [''r1'']] \<subseteq> {''id''}"
    by simp
  have c1: "Handler_List ex_paging ex_Parse (ex_list ''/store/policies'' (PoliciesPtr 0) None)
      (ex_paged_request ''subject'' [''s1'']) ex_store =
      \<lparr>calls = [ListAllCall ''/store/policies'' (PoliciesPtr 0)],
       written = [Write (Some (PoliciesVal [ex_p1]))], aborted = None\<rparr>"
    using t [where factory = "ex_list ''/store/policies'' (PoliciesPtr 0) None"
        and r = "ex_paged_request ''subject'' [''s1'']"
        and l = "\<lparr>Collection = ''/store/policies'', Value = PoliciesPtr 0, FilterFunc = None\<rparr>",
        OF req parse] f1
    by (simp add: all idf d1)
  have c2: "Handler_List ex_paging ex_Parse (ex_list ''/store/roles'' (RolesPtr 0) None)
      (ex_paged_request ''member'' [''alice'']) ex_store =
      \<lparr>calls = [ListAllCall ''/store/roles'' (RolesPtr 0)],
       written = [Write (Some (RolesVal [ex_r1, ex_r2]))], aborted = None\<rparr>"
    using t [where factory = "ex_list ''/store/roles'' (RolesPtr 0) None"
        and r = "ex_paged_request ''member'' [''alice'']"
        and l = "\<lparr>Collection = ''/store/roles'', Value = RolesPtr 0, FilterFunc = None\<rparr>",
        OF req parse] f2
    by (simp add: all idf d1)
  have c3: "Handler_List ex_paging ex_Parse (ex_list ''/store/roles'' (RolesPtr 0) None)
      (ex_paged_request ''id'' [''r1'']) ex_store =
      \<lparr>calls = [ListCall ''/store/roles'' (RolesPtr 0) 2 1],
       written = [Write (Some (RolesVal [ex_r2]))], aborted = None\<rparr>"
    using t [where factory = "ex_list ''/store/roles'' (RolesPtr 0) None"
        and r = "ex_paged_request ''id'' [''r1'']"
        and l = "\<lparr>Collection = ''/store/roles'', Value = RolesPtr 0, FilterFunc = None\<rparr>",
        OF req parse] f3
    by (simp add: page idf d1)
  have c4: "Handler_List ex_paging ex_Parse (ex_list ''/store/rolesx'' (RolesPtr 0) None)
      (ex_paged_request ''member'' [''alice'']) ex_store =
      \<lparr>calls = [ListCall ''/store/rolesx'' (RolesPtr 0) 2 1],
       written = [Write (Some (RolesVal [ex_r2]))], aborted = None\<rparr>"
    using t [where factory = "ex_list ''/store/rolesx'' (RolesPtr 0) None"
        and r = "ex_paged_request ''member'' [''alice'']"
        and l = "\<lparr>Collection = ''/store/rolesx'', Value = RolesPtr 0, FilterFunc = None\<rparr>",
        OF req parse] f4
    by (simp add: page idf d1)
  have c5: "\<not> spec_isFilter ''/store/roles'' [''id'' \<mapsto> [''r1'']]"
    using t [where factory = "ex_list ''/store/roles'' (RolesPtr 0) None"
        and r = "ex_paged_request ''id'' [''r1'']"
        and l = "\<lparr>Collection = ''/store/roles'', Value = RolesPtr 0, FilterFunc = None\<rparr>",
        OF req parse] d
    by blast
  from c1 c2 c3 c4 c5 show ?thesis
    by (simp only: simp_thms)
qed

subsection \<open>C2: the role filter\<close>

text \<open>
  Claim C2 says that the result the filtering routine produces contains a role iff the
  role passes the member and the id filter. The routine windows what it has filtered
  (source lines 96 to 98), so a role that passes can be missing from its result: with
  \<open>member=alice\<close>, offset 1 and limit 2 the role r1 passes and the result is empty.
\<close>

theorem ListByQuery_roles_counterexample:
  "ListByQuery pagination_Index ex_store \<lparr>Collection = ''/store/roles'', Value = RolesPtr 0\<rparr>
     [''member'' \<mapsto> [''alice'']] 1 2 =
   Inr (ex_store\<lparr>roles_heap := [[ex_r1, ex_r2], []]\<rparr>,
        \<lparr>Collection = ''/store/roles'', Value = RolesPtr 1\<rparr>) \<and>
   deref (ex_store\<lparr>roles_heap := [[ex_r1, ex_r2], []]\<rparr>) (RolesPtr 1) = Some (RolesVal []) \<and>
   roles_at ex_store 0 = Some [ex_r1, ex_r2] \<and>
   spec_role_kept (qget [''member'' \<mapsto> [''alice'']] ''member'')
     (qget [''member'' \<mapsto> [''alice'']] ''id'') ex_r1"
proof -
  have w: "window pagination_Index 2 1 [ex_r1] = Inr []"
    by (simp add: window_def reslice_def pagination_Index_def)
  have "ListByQuery pagination_Index ex_store
          \<lparr>Collection = ''/store/roles'', Value = RolesPtr 0\<rparr> [''member'' \<mapsto> [''alice'']] 1 2 =
        (case window pagination_Index 2 1
                (roles_loop [''member'' \<mapsto> [''alice'']] [ex_r1, ex_r2] []) of
           Inl p \<Rightarrow> Inl p
         | Inr res \<Rightarrow>
             Inr (ex_store\<lparr>roles_heap := roles_heap ex_store @ [res]\<rparr>,
                  \<lparr>Collection = ''/store/roles'', Value = RolesPtr 0\<rparr>
                  \<lparr>Value := RolesPtr (length (roles_heap ex_store))\<rparr>))"
    by (rule ListByQuery_Roles [where a = 0]) (simp_all add: ex_roles_cell)
  also have "\<dots> = Inr (ex_store\<lparr>roles_heap := [[ex_r1, ex_r2], []]\<rparr>,
                      \<lparr>Collection = ''/store/roles'', Value = RolesPtr 1\<rparr>)"
    unfolding roles_loop_spec ex_filtered_roles w ex_heaps by simp
  finally have run: "ListByQuery pagination_Index ex_store
      \<lparr>Collection = ''/store/roles'', Value = RolesPtr 0\<rparr> [''member'' \<mapsto> [''alice'']] 1 2 =
      Inr (ex_store\<lparr>roles_heap := [[ex_r1, ex_r2], []]\<rparr>,
           \<lparr>Collection = ''/store/roles'', Value = RolesPtr 1\<rparr>)" .
  have d: "deref (ex_store\<lparr>roles_heap := [[ex_r1, ex_r2], []]\<rparr>) (RolesPtr 1) =
      Some (RolesVal [])"
    by (simp add: deref_def roles_at_def cell_def)
  have k: "spec_role_kept (qget [''member'' \<mapsto> [''alice'']] ''member'')
      (qget [''member'' \<mapsto> [''alice'']] ''id'') ex_r1"
    by (simp add: spec_role_kept_def qget_def ex_r1_def)
  from run d ex_roles_cell k show ?thesis
    by (simp only: simp_thms)
qed

text \<open>
  Claim C2, amended. With M the values of \<open>member\<close> and I the values of \<open>id\<close> in the
  query, the result of ListByQuery on a roles collection is the window \<open>[start, end)\<close>
  that \<open>pagination.Index\<close> returns for limit, offset and n, cut out of the sequence of
  the n roles for which (M is empty or Members meets M) and (I is empty or ID is in I),
  taken in the order of the input. So every role of the result passes both filters and
  keeps its place relative to the others, and when the window is the whole sequence
  the result contains a role iff the role passes.
\<close>

theorem ListByQuery_roles_result:
  assumes v: "Value l = RolesPtr a" and c: "roles_at s a = Some rs"
  shows "ListByQuery Index s l m offset limit =
           (case window Index limit offset (spec_filtered_roles m rs) of
              Inl p \<Rightarrow> Inl p
            | Inr res \<Rightarrow>
                Inr (s\<lparr>roles_heap := roles_heap s @ [res]\<rparr>,
                     l\<lparr>Value := RolesPtr (length (roles_heap s))\<rparr>)) \<and>
         (\<forall>s' l'. ListByQuery Index s l m offset limit = Inr (s', l') \<longrightarrow>
            (\<exists>res start fin.
               deref s' (Value l') = Some (RolesVal res) \<and>
               Index limit offset (int (length (spec_filtered_roles m rs))) = (start, fin) \<and>
               res = take (nat (fin - start)) (drop (nat start) (spec_filtered_roles m rs)) \<and>
               (\<forall>r \<in> set res.
                  r \<in> set rs \<and> spec_role_kept (qget m ''member'') (qget m ''id'') r) \<and>
               (start = 0 \<and> fin = int (length (spec_filtered_roles m rs)) \<longrightarrow>
                  res = spec_filtered_roles m rs \<and>
                  (\<forall>r. r \<in> set res \<longleftrightarrow>
                     r \<in> set rs \<and> spec_role_kept (qget m ''member'') (qget m ''id'') r))))"
proof (intro conjI allI impI)
  show eq: "ListByQuery Index s l m offset limit =
      (case window Index limit offset (spec_filtered_roles m rs) of
         Inl p \<Rightarrow> Inl p
       | Inr res \<Rightarrow>
           Inr (s\<lparr>roles_heap := roles_heap s @ [res]\<rparr>,
                l\<lparr>Value := RolesPtr (length (roles_heap s))\<rparr>))"
    using ListByQuery_Roles [OF v c] by (simp add: roles_loop_spec)
  fix s' l'
  assume run: "ListByQuery Index s l m offset limit = Inr (s', l')"
  with eq obtain res where w: "window Index limit offset (spec_filtered_roles m rs) = Inr res"
    and s': "s' = s\<lparr>roles_heap := roles_heap s @ [res]\<rparr>"
    and l': "l' = l\<lparr>Value := RolesPtr (length (roles_heap s))\<rparr>"
    by (auto split: sum.splits)
  from w obtain start fin
    where i: "Index limit offset (int (length (spec_filtered_roles m rs))) = (start, fin)"
      and r: "res = take (nat (fin - start)) (drop (nat start) (spec_filtered_roles m rs))"
    by (rule window_result)
  have d: "deref s' (Value l') = Some (RolesVal res)"
    using s' l' by (simp add: deref_new_roles)
  have sub: "set res \<subseteq> set (spec_filtered_roles m rs)"
    unfolding r by (rule set_slice)
  then have only: "\<forall>r \<in> set res.
      r \<in> set rs \<and> spec_role_kept (qget m ''member'') (qget m ''id'') r"
    by (auto simp: spec_filtered_roles_def)
  have whole: "start = 0 \<and> fin = int (length (spec_filtered_roles m rs)) \<longrightarrow>
      res = spec_filtered_roles m rs \<and>
      (\<forall>x. x \<in> set res \<longleftrightarrow>
         x \<in> set rs \<and> spec_role_kept (qget m ''member'') (qget m ''id'') x)"
  proof
    assume "start = 0 \<and> fin = int (length (spec_filtered_roles m rs))"
    with r have "res = spec_filtered_roles m rs"
      by simp
    then show "res = spec_filtered_roles m rs \<and>
      (\<forall>x. x \<in> set res \<longleftrightarrow>
         x \<in> set rs \<and> spec_role_kept (qget m ''member'') (qget m ''id'') x)"
      by (simp add: spec_filtered_roles_def)
  qed
  from d i r only whole
  show "\<exists>res start fin.
      deref s' (Value l') = Some (RolesVal res) \<and>
      Index limit offset (int (length (spec_filtered_roles m rs))) = (start, fin) \<and>
      res = take (nat (fin - start)) (drop (nat start) (spec_filtered_roles m rs)) \<and>
      (\<forall>r \<in> set res.
         r \<in> set rs \<and> spec_role_kept (qget m ''member'') (qget m ''id'') r) \<and>
      (start = 0 \<and> fin = int (length (spec_filtered_roles m rs)) \<longrightarrow>
         res = spec_filtered_roles m rs \<and>
         (\<forall>r. r \<in> set res \<longleftrightarrow>
            r \<in> set rs \<and> spec_role_kept (qget m ''member'') (qget m ''id'') r))"
    by blast
qed

theorem ListByQuery_roles_result_witness:
  "Value \<lparr>Collection = ''/store/roles'', Value = RolesPtr 0\<rparr> = RolesPtr 0 \<and>
   roles_at ex_store 0 = Some [ex_r1, ex_r2] \<and>
   ListByQuery pagination_Index ex_store \<lparr>Collection = ''/store/roles'', Value = RolesPtr 0\<rparr>
     [''member'' \<mapsto> [''alice'']] 0 100 =
   Inr (ex_store\<lparr>roles_heap := [[ex_r1, ex_r2], [ex_r1]]\<rparr>,
        \<lparr>Collection = ''/store/roles'', Value = RolesPtr 1\<rparr>)"
proof -
  have v: "Value \<lparr>Collection = ''/store/roles'', Value = RolesPtr 0\<rparr> = RolesPtr 0"
    by simp
  have w: "window pagination_Index 100 0 [ex_r1] = Inr [ex_r1]"
    by (simp add: window_def reslice_def pagination_Index_def)
  note t = ListByQuery_roles_result
      [where l = "\<lparr>Collection = ''/store/roles'', Value = RolesPtr 0\<rparr>" and a = 0
         and s = ex_store and rs = "[ex_r1, ex_r2]" and Index = pagination_Index
         and m = "[''member'' \<mapsto> [''alice'']]" and offset = 0 and limit = 100,
       OF v ex_roles_cell, THEN conjunct1]
  from t have "ListByQuery pagination_Index ex_store
      \<lparr>Collection = ''/store/roles'', Value = RolesPtr 0\<rparr> [''member'' \<mapsto> [''alice'']] 0 100 =
      Inr (ex_store\<lparr>roles_heap := [[ex_r1, ex_r2], [ex_r1]]\<rparr>,
           \<lparr>Collection = ''/store/roles'', Value = RolesPtr 1\<rparr>)"
    unfolding ex_filtered_roles w ex_heaps by simp
  with v ex_roles_cell show ?thesis
    by (simp only: simp_thms)
qed

subsection \<open>C3: the policy filter\<close>

text \<open>
  Claim C3 says that a policy is retained in the result iff it passes every dimension
  with values. The routine windows what it has filtered (source lines 107 to 109), so a
  policy that passes can be missing: with \<open>action=read\<close>, offset 0 and limit 0 the
  policy p1 passes every dimension and the result is empty.
\<close>

theorem ListByQuery_policies_counterexample:
  "ListByQuery pagination_Index ex_store
     \<lparr>Collection = ''/store/policies'', Value = PoliciesPtr 0\<rparr> [''action'' \<mapsto> [''read'']] 0 0 =
   Inr (ex_store\<lparr>policies_heap := [[ex_p1], []]\<rparr>,
        \<lparr>Collection = ''/store/policies'', Value = PoliciesPtr 1\<rparr>) \<and>
   deref (ex_store\<lparr>policies_heap := [[ex_p1], []]\<rparr>) (PoliciesPtr 1) =
     Some (PoliciesVal []) \<and>
   policies_at ex_store 0 = Some [ex_p1] \<and>
   spec_policy_kept (qget [''action'' \<mapsto> [''read'']] ''subject'')
     (qget [''action'' \<mapsto> [''read'']] ''resource'') (qget [''action'' \<mapsto> [''read'']] ''action'')
     (qget [''action'' \<mapsto> [''read'']] ''id'') ex_p1"
proof -
  have w: "window pagination_Index 0 0 [ex_p1] = Inr []"
    by (simp add: window_def reslice_def pagination_Index_def)
  have "ListByQuery pagination_Index ex_store
          \<lparr>Collection = ''/store/policies'', Value = PoliciesPtr 0\<rparr>
          [''action'' \<mapsto> [''read'']] 0 0 =
        (case window pagination_Index 0 0
                (policies_loop [''action'' \<mapsto> [''read'']] [ex_p1] []) of
           Inl p \<Rightarrow> Inl p
         | Inr res \<Rightarrow>
             Inr (ex_store\<lparr>policies_heap := policies_heap ex_store @ [res]\<rparr>,
                  \<lparr>Collection = ''/store/policies'', Value = PoliciesPtr 0\<rparr>
                  \<lparr>Value := PoliciesPtr (length (policies_heap ex_store))\<rparr>))"
    by (rule ListByQuery_Policies [where a = 0]) (simp_all add: ex_policies_cell)
  also have "\<dots> = Inr (ex_store\<lparr>policies_heap := [[ex_p1], []]\<rparr>,
                      \<lparr>Collection = ''/store/policies'', Value = PoliciesPtr 1\<rparr>)"
    unfolding policies_loop_spec ex_filtered_policies w ex_heaps by simp
  finally have run: "ListByQuery pagination_Index ex_store
      \<lparr>Collection = ''/store/policies'', Value = PoliciesPtr 0\<rparr> [''action'' \<mapsto> [''read'']] 0 0 =
      Inr (ex_store\<lparr>policies_heap := [[ex_p1], []]\<rparr>,
           \<lparr>Collection = ''/store/policies'', Value = PoliciesPtr 1\<rparr>)" .
  have d: "deref (ex_store\<lparr>policies_heap := [[ex_p1], []]\<rparr>) (PoliciesPtr 1) =
      Some (PoliciesVal [])"
    by (simp add: deref_def policies_at_def cell_def)
  have k: "spec_policy_kept (qget [''action'' \<mapsto> [''read'']] ''subject'')
     (qget [''action'' \<mapsto> [''read'']] ''resource'') (qget [''action'' \<mapsto> [''read'']] ''action'')
     (qget [''action'' \<mapsto> [''read'']] ''id'') ex_p1"
    by (simp add: spec_policy_kept_def qget_def ex_p1_def)
  from run d ex_policies_cell k show ?thesis
    by (simp only: simp_thms)
qed

text \<open>
  Claim C3, amended. The result of ListByQuery on a policies collection is the window
  \<open>[start, end)\<close> that \<open>pagination.Index\<close> returns for limit, offset and n, cut out
  of the sequence of the n policies that pass each of the four dimensions subject,
  resource, action and id whose values in the query are not empty, in the order of the
  input. So every policy of the result passes all of them, and when the window is the
  whole sequence a policy is in the result iff it passes. A dimension without values
  excludes nothing: taking a parameter out of the query removes no policy from the
  filtered sequence.
\<close>

theorem ListByQuery_policies_result:
  assumes v: "Value l = PoliciesPtr a" and c: "policies_at s a = Some ps"
  shows "ListByQuery Index s l m offset limit =
           (case window Index limit offset (spec_filtered_policies m ps) of
              Inl p \<Rightarrow> Inl p
            | Inr res \<Rightarrow>
                Inr (s\<lparr>policies_heap := policies_heap s @ [res]\<rparr>,
                     l\<lparr>Value := PoliciesPtr (length (policies_heap s))\<rparr>)) \<and>
         (\<forall>s' l'. ListByQuery Index s l m offset limit = Inr (s', l') \<longrightarrow>
            (\<exists>res start fin.
               deref s' (Value l') = Some (PoliciesVal res) \<and>
               Index limit offset (int (length (spec_filtered_policies m ps))) = (start, fin) \<and>
               res = take (nat (fin - start))
                       (drop (nat start) (spec_filtered_policies m ps)) \<and>
               (\<forall>p \<in> set res.
                  p \<in> set ps \<and>
                  spec_policy_kept (qget m ''subject'') (qget m ''resource'')
                    (qget m ''action'') (qget m ''id'') p) \<and>
               (start = 0 \<and> fin = int (length (spec_filtered_policies m ps)) \<longrightarrow>
                  res = spec_filtered_policies m ps \<and>
                  (\<forall>p. p \<in> set res \<longleftrightarrow>
                     p \<in> set ps \<and>
                     spec_policy_kept (qget m ''subject'') (qget m ''resource'')
                       (qget m ''action'') (qget m ''id'') p)))) \<and>
         set (spec_filtered_policies m ps) \<subseteq> set (spec_filtered_policies (m(k := None)) ps)"
proof (intro conjI allI impI)
  show eq: "ListByQuery Index s l m offset limit =
      (case window Index limit offset (spec_filtered_policies m ps) of
         Inl p \<Rightarrow> Inl p
       | Inr res \<Rightarrow>
           Inr (s\<lparr>policies_heap := policies_heap s @ [res]\<rparr>,
                l\<lparr>Value := PoliciesPtr (length (policies_heap s))\<rparr>))"
    using ListByQuery_Policies [OF v c] by (simp add: policies_loop_spec)
  have "spec_policy_kept (qget (m(k := None)) ''subject'') (qget (m(k := None)) ''resource'')
          (qget (m(k := None)) ''action'') (qget (m(k := None)) ''id'') p"
    if "spec_policy_kept (qget m ''subject'') (qget m ''resource'') (qget m ''action'')
          (qget m ''id'') p" for p
    using that by (rule policy_kept_weaken) (simp_all add: qget_absent)
  then show "set (spec_filtered_policies m ps) \<subseteq> set (spec_filtered_policies (m(k := None)) ps)"
    unfolding spec_filtered_policies_def by auto
  fix s' l'
  assume run: "ListByQuery Index s l m offset limit = Inr (s', l')"
  with eq obtain res where w: "window Index limit offset (spec_filtered_policies m ps) = Inr res"
    and s': "s' = s\<lparr>policies_heap := policies_heap s @ [res]\<rparr>"
    and l': "l' = l\<lparr>Value := PoliciesPtr (length (policies_heap s))\<rparr>"
    by (auto split: sum.splits)
  from w obtain start fin
    where i: "Index limit offset (int (length (spec_filtered_policies m ps))) = (start, fin)"
      and r: "res = take (nat (fin - start)) (drop (nat start) (spec_filtered_policies m ps))"
    by (rule window_result)
  have d: "deref s' (Value l') = Some (PoliciesVal res)"
    using s' l' by (simp add: deref_new_policies)
  have sub: "set res \<subseteq> set (spec_filtered_policies m ps)"
    unfolding r by (rule set_slice)
  then have only: "\<forall>p \<in> set res.
      p \<in> set ps \<and>
      spec_policy_kept (qget m ''subject'') (qget m ''resource'') (qget m ''action'')
        (qget m ''id'') p"
    by (auto simp: spec_filtered_policies_def)
  have whole: "start = 0 \<and> fin = int (length (spec_filtered_policies m ps)) \<longrightarrow>
      res = spec_filtered_policies m ps \<and>
      (\<forall>p. p \<in> set res \<longleftrightarrow>
         p \<in> set ps \<and>
         spec_policy_kept (qget m ''subject'') (qget m ''resource'') (qget m ''action'')
           (qget m ''id'') p)"
  proof
    assume "start = 0 \<and> fin = int (length (spec_filtered_policies m ps))"
    with r have "res = spec_filtered_policies m ps"
      by simp
    then show "res = spec_filtered_policies m ps \<and>
      (\<forall>p. p \<in> set res \<longleftrightarrow>
         p \<in> set ps \<and>
         spec_policy_kept (qget m ''subject'') (qget m ''resource'') (qget m ''action'')
           (qget m ''id'') p)"
      by (simp add: spec_filtered_policies_def)
  qed
  from d i r only whole
  show "\<exists>res start fin.
      deref s' (Value l') = Some (PoliciesVal res) \<and>
      Index limit offset (int (length (spec_filtered_policies m ps))) = (start, fin) \<and>
      res = take (nat (fin - start)) (drop (nat start) (spec_filtered_policies m ps)) \<and>
      (\<forall>p \<in> set res.
         p \<in> set ps \<and>
         spec_policy_kept (qget m ''subject'') (qget m ''resource'') (qget m ''action'')
           (qget m ''id'') p) \<and>
      (start = 0 \<and> fin = int (length (spec_filtered_policies m ps)) \<longrightarrow>
         res = spec_filtered_policies m ps \<and>
         (\<forall>p. p \<in> set res \<longleftrightarrow>
            p \<in> set ps \<and>
            spec_policy_kept (qget m ''subject'') (qget m ''resource'') (qget m ''action'')
              (qget m ''id'') p))"
    by blast
qed

theorem ListByQuery_policies_result_witness:
  "Value \<lparr>Collection = ''/store/policies'', Value = PoliciesPtr 0\<rparr> = PoliciesPtr 0 \<and>
   policies_at ex_store 0 = Some [ex_p1] \<and>
   ListByQuery pagination_Index ex_store
     \<lparr>Collection = ''/store/policies'', Value = PoliciesPtr 0\<rparr> [''action'' \<mapsto> [''read'']] 0 100 =
   Inr (ex_store\<lparr>policies_heap := [[ex_p1], [ex_p1]]\<rparr>,
        \<lparr>Collection = ''/store/policies'', Value = PoliciesPtr 1\<rparr>)"
proof -
  have v: "Value \<lparr>Collection = ''/store/policies'', Value = PoliciesPtr 0\<rparr> = PoliciesPtr 0"
    by simp
  have w: "window pagination_Index 100 0 [ex_p1] = Inr [ex_p1]"
    by (simp add: window_def reslice_def pagination_Index_def)
  note t = ListByQuery_policies_result
      [where l = "\<lparr>Collection = ''/store/policies'', Value = PoliciesPtr 0\<rparr>" and a = 0
         and s = ex_store and ps = "[ex_p1]" and Index = pagination_Index
         and m = "[''action'' \<mapsto> [''read'']]" and offset = 0 and limit = 100
         and k = "''action''",
       OF v ex_policies_cell, THEN conjunct1]
  from t have "ListByQuery pagination_Index ex_store
      \<lparr>Collection = ''/store/policies'', Value = PoliciesPtr 0\<rparr>
      [''action'' \<mapsto> [''read'']] 0 100 =
      Inr (ex_store\<lparr>policies_heap := [[ex_p1], [ex_p1]]\<rparr>,
           \<lparr>Collection = ''/store/policies'', Value = PoliciesPtr 1\<rparr>)"
    unfolding ex_filtered_policies w ex_heaps by simp
  with v ex_policies_cell show ?thesis
    by (simp only: simp_thms)
qed

subsection \<open>C4: the window after the filter\<close>

text \<open>
  Claim C4. When ListByQuery is the bound filter routine and the backend fetch has
  succeeded, on the ListAll path and on the List path alike, the response is the
  filtered sequence cut to the window \<open>[start, end)\<close> that \<open>pagination.Index\<close> returns
  for (limit, offset, length of the filtered sequence), for a Roles and for a Policies
  destination. On the List path the backend has already applied the same limit and
  offset, so they are applied a second time.
\<close>

theorem List_windows_after_filtering_on_both_paths:
  assumes req: "factory r = Inr l" "Parse r 100 0 500 = (limit, offset)"
    and bound: "FilterFunc l = Some (ListByQuery Index)"
    and fetched: "fetch h l (URL_Query r) limit offset s = (c, Inr s')"
  shows "(Value l = RolesPtr a \<and> roles_at s' a = Some rs \<and>
          Index limit offset (int (length (roles_loop (URL_Query r) rs []))) = (start, fin) \<and>
          0 \<le> start \<and> start \<le> fin \<and> fin \<le> int (length (roles_loop (URL_Query r) rs []))
          \<longrightarrow> written (Handler_List h Parse factory r s) =
                [Write (Some (RolesVal (take (nat (fin - start))
                                          (drop (nat start) (roles_loop (URL_Query r) rs [])))))]) \<and>
         (Value l = PoliciesPtr a \<and> policies_at s' a = Some ps \<and>
          Index limit offset (int (length (policies_loop (URL_Query r) ps []))) = (start, fin) \<and>
          0 \<le> start \<and> start \<le> fin \<and>
          fin \<le> int (length (policies_loop (URL_Query r) ps []))
          \<longrightarrow> written (Handler_List h Parse factory r s) =
                [Write (Some (PoliciesVal (take (nat (fin - start))
                                (drop (nat start) (policies_loop (URL_Query r) ps [])))))])"
proof (intro conjI impI)
  note hl = Handler_List_fetched [where factory = factory and Parse = Parse, OF req fetched]
  assume h: "Value l = RolesPtr a \<and> roles_at s' a = Some rs \<and>
          Index limit offset (int (length (roles_loop (URL_Query r) rs []))) = (start, fin) \<and>
          0 \<le> start \<and> start \<le> fin \<and> fin \<le> int (length (roles_loop (URL_Query r) rs []))"
  then have w: "window Index limit offset (roles_loop (URL_Query r) rs []) =
      Inr (take (nat (fin - start)) (drop (nat start) (roles_loop (URL_Query r) rs [])))"
    by (simp add: window_in_bounds)
  from h have "Value l = RolesPtr a" and "roles_at s' a = Some rs"
    by simp_all
  then show "written (Handler_List h Parse factory r s) =
      [Write (Some (RolesVal (take (nat (fin - start))
                                (drop (nat start) (roles_loop (URL_Query r) rs [])))))]"
    by (simp add: hl Filter_ListByQuery [OF bound]
        ListByQuery_Roles w deref_new_roles)
next
  note hl = Handler_List_fetched [where factory = factory and Parse = Parse, OF req fetched]
  assume h: "Value l = PoliciesPtr a \<and> policies_at s' a = Some ps \<and>
          Index limit offset (int (length (policies_loop (URL_Query r) ps []))) = (start, fin) \<and>
          0 \<le> start \<and> start \<le> fin \<and>
          fin \<le> int (length (policies_loop (URL_Query r) ps []))"
  then have w: "window Index limit offset (policies_loop (URL_Query r) ps []) =
      Inr (take (nat (fin - start)) (drop (nat start) (policies_loop (URL_Query r) ps [])))"
    by (simp add: window_in_bounds)
  from h have "Value l = PoliciesPtr a" and "policies_at s' a = Some ps"
    by simp_all
  then show "written (Handler_List h Parse factory r s) =
      [Write (Some (PoliciesVal (take (nat (fin - start))
                                (drop (nat start) (policies_loop (URL_Query r) ps [])))))]"
    by (simp add: hl Filter_ListByQuery [OF bound]
        ListByQuery_Policies w deref_new_policies)
qed


theorem List_windows_after_filtering_on_both_paths_witness:
  "written (Handler_List ex_backend ex_Parse
              (ex_list ''/store/roles'' (RolesPtr 0) (Some (ListByQuery pagination_Index)))
              (ex_request ''limit'' [''2'']) ex_store) = [Write (Some (RolesVal [ex_r2]))]"
proof -
  let ?f = "ex_list ''/store/roles'' (RolesPtr 0) (Some (ListByQuery pagination_Index))"
  let ?l = "\<lparr>Collection = ''/store/roles'', Value = RolesPtr 0,
             FilterFunc = Some (ListByQuery pagination_Index)\<rparr>"
  let ?r = "ex_request ''limit'' [''2'']"
  let ?c = "ListCall ''/store/roles'' (RolesPtr 0) 2 1"
  have req: "?f ?r = Inr ?l" "ex_Parse ?r 100 0 500 = (2, 1)"
    by (simp_all add: ex_list_def ex_Parse_def)
  have bound: "FilterFunc ?l = Some (ListByQuery pagination_Index)"
    by simp
  have fetched: "fetch ex_backend ?l (URL_Query ?r) 2 1 ex_store = (?c, Inr ex_store)"
    by (simp add: fetch_def ex_backend_def ex_request_def present_def)
  have loop: "roles_loop (URL_Query ?r) [ex_r1, ex_r2] [] = [ex_r1, ex_r2]"
    by (simp add: roles_loop_filter spec_role_kept_def qget_def ex_request_def)
  have pre: "Value ?l = RolesPtr 0 \<and> roles_at ex_store 0 = Some [ex_r1, ex_r2] \<and>
      pagination_Index 2 1 (int (length (roles_loop (URL_Query ?r) [ex_r1, ex_r2] []))) = (1, 2) \<and>
      (0::int) \<le> 1 \<and> (1::int) \<le> 2 \<and>
      2 \<le> int (length (roles_loop (URL_Query ?r) [ex_r1, ex_r2] []))"
    unfolding loop by (simp add: roles_at_def cell_def ex_store_def pagination_Index_def)
  from List_windows_after_filtering_on_both_paths
    [where factory = ?f and r = ?r and l = ?l and Parse = ex_Parse and limit = 2 and offset = 1
       and Index = pagination_Index and h = ex_backend and s = ex_store and c = ?c
       and s' = ex_store and a = 0 and rs = "[ex_r1, ex_r2]" and start = 1 and fin = 2,
     OF req bound fetched] pre
  show ?thesis
    unfolding loop by simp
qed

subsection \<open>C5: an unknown variant\<close>

text \<open>
  Claim C5. When Value is neither a pointer to Roles nor a pointer to Policies,
  ListByQuery panics with its cast message, whatever the query, limit and offset; it
  returns no result.
\<close>

theorem ListByQuery_unknown_variant_panics:
  "Value l = OtherPtr a \<Longrightarrow>
   ListByQuery Index s l m offset limit =
     Inl (UnknownListType ''storage:unable to cast list request to a known type!'')"
  by (simp add: ListByQuery_def)

theorem ListByQuery_unknown_variant_panics_witness:
  "ListByQuery pagination_Index ex_store \<lparr>Collection = ''things'', Value = OtherPtr 0\<rparr>
     Map.empty 0 100 =
   Inl (UnknownListType ''storage:unable to cast list request to a known type!'')"
  using ListByQuery_unknown_variant_panics
    [of "\<lparr>Collection = ''things'', Value = OtherPtr 0\<rparr>" 0 pagination_Index ex_store
      Map.empty 0 100]
  by simp

subsection \<open>C8: windowing at offset 0\<close>

text \<open>
  Claim C8. With offset 0 and a limit that is at least the length of the sequence, the
  windowing step returns the sequence unchanged, so applying it twice gives the same
  as applying it once.
\<close>

theorem window_idempotent_at_offset_zero:
  "int (length xs) \<le> limit \<Longrightarrow>
   window pagination_Index limit 0 xs = Inr xs \<and>
   (case window pagination_Index limit 0 xs of
      Inl p \<Rightarrow> Inl p
    | Inr ys \<Rightarrow> window pagination_Index limit 0 ys) = window pagination_Index limit 0 xs"
  by (simp add: window_def reslice_def pagination_Index_def)

theorem window_idempotent_at_offset_zero_witness:
  "int (length [ex_r1, ex_r2]) \<le> 2 \<and>
   window pagination_Index 2 0 [ex_r1, ex_r2] = Inr [ex_r1, ex_r2]"
  using window_idempotent_at_offset_zero [of "[ex_r1, ex_r2]" 2]
  by simp

subsection \<open>C10: ListByQuery returns\<close>

text \<open>
  Claim C10 says that ListByQuery returns normally for every Roles or Policies Value
  once \<open>pagination.Index\<close> stays in bounds. The type switch takes the Roles case for
  a nil pointer to Roles too, and \<open>range *val\<close> then dereferences it: the call panics
  although \<open>pagination.Index\<close> is in bounds for every size.
\<close>

theorem ListByQuery_nil_counterexample:
  "Index_in_bounds pagination_Index 100 0 \<and> Value ex_nil = RolesPtr 5 \<and>
   ListByQuery pagination_Index ex_store ex_nil [''member'' \<mapsto> [''alice'']] 0 100 =
     Inl NilPointerDereference"
  by (simp add: ex_Index_in_bounds ListByQuery_def ex_nil_def roles_at_def cell_def ex_store_def)

text \<open>
  Claim C10, amended. Let \<open>pagination.Index\<close> return, for every size n, a window with
  \<open>0 \<le> start \<le> end \<le> n\<close>, and let Value be a pointer to Roles or to Policies. If
  the pointer is not nil, ListByQuery returns normally: the re-slice is in bounds, also
  for an empty collection and for filters that match nothing. If it is nil, ListByQuery
  panics on the dereference.
\<close>

theorem ListByQuery_total:
  assumes idx: "Index_in_bounds Index limit offset"
    and val: "Value l = RolesPtr a \<or> Value l = PoliciesPtr a"
  shows "(deref s (Value l) \<noteq> None \<longrightarrow>
            (\<exists>s' l'. ListByQuery Index s l m offset limit = Inr (s', l'))) \<and>
         (deref s (Value l) = None \<longrightarrow>
            ListByQuery Index s l m offset limit = Inl NilPointerDereference)"
  using val
proof
  assume v: "Value l = RolesPtr a"
  show ?thesis
  proof (cases "roles_at s a")
    case None
    with v show ?thesis
      by (simp add: ListByQuery_def deref_def)
  next
    case (Some rs)
    from window_total [OF idx, of "roles_loop m rs []"]
    have "\<exists>s' l'. ListByQuery Index s l m offset limit = Inr (s', l')"
      by (auto simp: ListByQuery_Roles [OF v Some])
    with v Some show ?thesis
      by (simp add: deref_def)
  qed
next
  assume v: "Value l = PoliciesPtr a"
  show ?thesis
  proof (cases "policies_at s a")
    case None
    with v show ?thesis
      by (simp add: ListByQuery_def deref_def)
  next
    case (Some ps)
    from window_total [OF idx, of "policies_loop m ps []"]
    have "\<exists>s' l'. ListByQuery Index s l m offset limit = Inr (s', l')"
      by (auto simp: ListByQuery_Policies [OF v Some])
    with v Some show ?thesis
      by (simp add: deref_def)
  qed
qed

theorem ListByQuery_total_witness:
  "Index_in_bounds pagination_Index 100 0 \<and>
   deref ex_store (RolesPtr 0) \<noteq> None \<and>
   (\<exists>s' l'. ListByQuery pagination_Index ex_store
              \<lparr>Collection = ''/store/roles'', Value = RolesPtr 0\<rparr> [''member'' \<mapsto> [''carol'']]
              0 100 = Inr (s', l')) \<and>
   deref ex_store (Value ex_nil) = None \<and>
   ListByQuery pagination_Index ex_store ex_nil [''member'' \<mapsto> [''carol'']] 0 100 =
     Inl NilPointerDereference"
proof -
  have d: "deref ex_store (RolesPtr 0) \<noteq> None"
    by (simp add: deref_def ex_roles_cell)
  have n: "deref ex_store (Value ex_nil) = None"
    by (simp add: deref_def ex_nil_def roles_at_def cell_def ex_store_def)
  have v1: "Value \<lparr>Collection = ''/store/roles'', Value = RolesPtr 0\<rparr> = RolesPtr 0 \<or>
      Value \<lparr>Collection = ''/store/roles'', Value = RolesPtr 0\<rparr> = PoliciesPtr 0"
    by simp
  have v2: "Value ex_nil = RolesPtr 5 \<or> Value ex_nil = PoliciesPtr 5"
    by (simp add: ex_nil_def)
  from ListByQuery_total
      [where l = "\<lparr>Collection = ''/store/roles'', Value = RolesPtr 0\<rparr>" and a = 0
         and s = ex_store and m = "[''member'' \<mapsto> [''carol'']]", OF ex_Index_in_bounds v1] d
  have a: "\<exists>s' l'. ListByQuery pagination_Index ex_store
      \<lparr>Collection = ''/store/roles'', Value = RolesPtr 0\<rparr> [''member'' \<mapsto> [''carol'']] 0 100 =
      Inr (s', l')"
    by simp
  from ListByQuery_total
      [where l = ex_nil and a = 5 and s = ex_store and m = "[''member'' \<mapsto> [''carol'']]",
       OF ex_Index_in_bounds v2] n
  have b: "ListByQuery pagination_Index ex_store ex_nil [''member'' \<mapsto> [''carol'']] 0 100 =
      Inl NilPointerDereference"
    by simp
  from ex_Index_in_bounds d a n b show ?thesis
    by blast
qed

subsection \<open>C6: what filtering does to Value\<close>

text \<open>
  Claim C6 says that the collection Value referred to before the filter pass holds the
  filtered, windowed result afterwards. The source assigns \<open>l.Value = &res\<close>: the
  result lives in a new collection and the old one keeps what it held. At the example
  of section 8 (roles r1 and r2, \<open>member=alice\<close>) Value goes from address 0 to the new
  address 1, which holds [r1], while address 0 still holds [r1, r2].
\<close>

theorem ListByQuery_in_place_counterexample:
  "ListByQuery pagination_Index ex_store \<lparr>Collection = ''/store/roles'', Value = RolesPtr 0\<rparr>
     [''member'' \<mapsto> [''alice'']] 0 100 =
   Inr (ex_store\<lparr>roles_heap := [[ex_r1, ex_r2], [ex_r1]]\<rparr>,
        \<lparr>Collection = ''/store/roles'', Value = RolesPtr 1\<rparr>) \<and>
   deref (ex_store\<lparr>roles_heap := [[ex_r1, ex_r2], [ex_r1]]\<rparr>) (RolesPtr 1) =
     Some (RolesVal [ex_r1]) \<and>
   deref (ex_store\<lparr>roles_heap := [[ex_r1, ex_r2], [ex_r1]]\<rparr>) (RolesPtr 0) =
     Some (RolesVal [ex_r1, ex_r2]) \<and>
   deref (ex_store\<lparr>roles_heap := [[ex_r1, ex_r2], [ex_r1]]\<rparr>) (RolesPtr 0) \<noteq>
     Some (RolesVal [ex_r1])"
  by (simp add: ListByQuery_example_run deref_def roles_at_def cell_def ex_r1_def ex_r2_def)

text \<open>
  Claim C6, amended. When ListByQuery returns, the Value field of the request refers to
  a collection that did not exist before and that holds the filtered, windowed result;
  every collection that existed before, the one Value referred to among them, holds
  what it held.
\<close>

theorem ListByQuery_allocates_result:
  assumes run: "ListByQuery Index s l m offset limit = Inr (s', l')"
  shows "Value l' \<noteq> Value l \<and> deref s (Value l') = None \<and>
         (\<forall>v. deref s v \<noteq> None \<longrightarrow> deref s' v = deref s v) \<and>
         deref s' (Value l) = deref s (Value l) \<and>
         (\<forall>a rs. Value l = RolesPtr a \<and> roles_at s a = Some rs \<longrightarrow>
            (\<exists>res. window Index limit offset (roles_loop m rs []) = Inr res \<and>
                   deref s' (Value l') = Some (RolesVal res))) \<and>
         (\<forall>a ps. Value l = PoliciesPtr a \<and> policies_at s a = Some ps \<longrightarrow>
            (\<exists>res. window Index limit offset (policies_loop m ps []) = Inr res \<and>
                   deref s' (Value l') = Some (PoliciesVal res)))"
  using run
proof (cases rule: ListByQuery_cases)
  case (Roles a rs res)
  have old: "deref s (Value l) \<noteq> None"
    using Roles(1,2) by (simp add: deref_def)
  have ne: "Value l' \<noteq> Value l"
    using Roles(1,2,5) by (auto simp: roles_at_def cell_def split: if_splits)
  have fresh: "deref s (Value l') = None"
    using Roles(5) by (simp add: deref_fresh_roles)
  have kept: "\<forall>v. deref s v \<noteq> None \<longrightarrow> deref s' v = deref s v"
    using Roles(4) by (simp add: deref_kept_roles)
  have new: "deref s' (Value l') = Some (RolesVal res)"
    using Roles(4,5) by (simp add: deref_def roles_at_def cell_def)
  from ne fresh kept old new Roles(1,2,3) show ?thesis
    by simp
next
  case (Policies a ps res)
  have old: "deref s (Value l) \<noteq> None"
    using Policies(1,2) by (simp add: deref_def)
  have ne: "Value l' \<noteq> Value l"
    using Policies(1,2,5) by (auto simp: policies_at_def cell_def split: if_splits)
  have fresh: "deref s (Value l') = None"
    using Policies(5) by (simp add: deref_fresh_policies)
  have kept: "\<forall>v. deref s v \<noteq> None \<longrightarrow> deref s' v = deref s v"
    using Policies(4) by (simp add: deref_kept_policies)
  have new: "deref s' (Value l') = Some (PoliciesVal res)"
    using Policies(4,5) by (simp add: deref_def policies_at_def cell_def)
  from ne fresh kept old new Policies(1,2,3) show ?thesis
    by simp
qed

theorem ListByQuery_allocates_result_witness:
  "RolesPtr 1 \<noteq> RolesPtr 0 \<and> deref ex_store (RolesPtr 1) = None \<and>
   deref (ex_store\<lparr>roles_heap := [[ex_r1, ex_r2], [ex_r1]]\<rparr>) (RolesPtr 0) =
     deref ex_store (RolesPtr 0) \<and>
   deref (ex_store\<lparr>roles_heap := [[ex_r1, ex_r2], [ex_r1]]\<rparr>) (RolesPtr 1) =
     Some (RolesVal [ex_r1])"
proof -
  have r: "roles_at ex_store 0 = Some [ex_r1, ex_r2]"
    by (simp add: roles_at_def cell_def ex_store_def)
  have f: "roles_loop [''member'' \<mapsto> [''alice'']] [ex_r1, ex_r2] [] = [ex_r1]"
    by (simp add: roles_loop_filter spec_role_kept_def qget_def ex_r1_def ex_r2_def)
  have w: "window pagination_Index 100 0 [ex_r1] = Inr [ex_r1]"
    by (simp add: window_def reslice_def pagination_Index_def)
  from ListByQuery_allocates_result [OF ListByQuery_example_run] r f w show ?thesis
    by simp
qed

subsection \<open>C7: Get, Delete and Upsert\<close>

text \<open>
  Claim C7. For each of Get, Delete and Upsert: if the factory fails, its error is
  written and the backend is not called; if the one backend call fails, its error is
  written and nothing else; on success Get and Upsert write the Value the backend left
  and Delete writes the status 204 and no body.
\<close>

theorem Get_Delete_Upsert_short_circuit:
  "((getFactory r = Inl e \<longrightarrow>
      Handler_Get h getFactory r s = \<lparr>calls = [], written = [WriteError e], aborted = None\<rparr>) \<and>
    (getFactory r = Inr g \<and>
     Manager_Get h (GetRequest.Collection g) (GetRequest.Key g) (GetRequest.Value g) s = Inl e \<longrightarrow>
      Handler_Get h getFactory r s =
        \<lparr>calls = [GetCall (GetRequest.Collection g) (GetRequest.Key g) (GetRequest.Value g)],
         written = [WriteError e], aborted = None\<rparr>) \<and>
    (getFactory r = Inr g \<and>
     Manager_Get h (GetRequest.Collection g) (GetRequest.Key g) (GetRequest.Value g) s = Inr s' \<longrightarrow>
      Handler_Get h getFactory r s =
        \<lparr>calls = [GetCall (GetRequest.Collection g) (GetRequest.Key g) (GetRequest.Value g)],
         written = [Write (deref s' (GetRequest.Value g))], aborted = None\<rparr>)) \<and>
   ((deleteFactory r = Inl e \<longrightarrow>
      Handler_Delete h deleteFactory r =
        \<lparr>calls = [], written = [WriteError e], aborted = None\<rparr>) \<and>
    (deleteFactory r = Inr d \<and>
     Manager_Delete h (DeleteRequest.Collection d) (DeleteRequest.Key d) = Some e \<longrightarrow>
      Handler_Delete h deleteFactory r =
        \<lparr>calls = [DeleteCall (DeleteRequest.Collection d) (DeleteRequest.Key d)],
         written = [WriteError e], aborted = None\<rparr>) \<and>
    (deleteFactory r = Inr d \<and>
     Manager_Delete h (DeleteRequest.Collection d) (DeleteRequest.Key d) = None \<longrightarrow>
      Handler_Delete h deleteFactory r =
        \<lparr>calls = [DeleteCall (DeleteRequest.Collection d) (DeleteRequest.Key d)],
         written = [WriteHeader 204], aborted = None\<rparr>)) \<and>
   ((upsertFactory r = Inl e \<longrightarrow>
      Handler_Upsert h upsertFactory r s =
        \<lparr>calls = [], written = [WriteError e], aborted = None\<rparr>) \<and>
    (upsertFactory r = Inr u \<and>
     Manager_Upsert h (UpsertRequest.Collection u) (UpsertRequest.Key u)
       (UpsertRequest.Value u) s = Inl e \<longrightarrow>
      Handler_Upsert h upsertFactory r s =
        \<lparr>calls = [UpsertCall (UpsertRequest.Collection u) (UpsertRequest.Key u)
                   (UpsertRequest.Value u)],
         written = [WriteError e], aborted = None\<rparr>) \<and>
    (upsertFactory r = Inr u \<and>
     Manager_Upsert h (UpsertRequest.Collection u) (UpsertRequest.Key u)
       (UpsertRequest.Value u) s = Inr s' \<longrightarrow>
      Handler_Upsert h upsertFactory r s =
        \<lparr>calls = [UpsertCall (UpsertRequest.Collection u) (UpsertRequest.Key u)
                   (UpsertRequest.Value u)],
         written = [Write (deref s' (UpsertRequest.Value u))], aborted = None\<rparr>))"
  by (intro conjI Handler_Get_cases Handler_Delete_cases Handler_Upsert_cases)

theorem Get_Delete_Upsert_short_circuit_witness:
  "Handler_Get ex_backend (\<lambda>r::unit. Inl (Error ''bad'')) () ex_store =
     \<lparr>calls = [], written = [WriteError (Error ''bad'')], aborted = None\<rparr> \<and>
   Handler_Get ex_down (\<lambda>r::unit. Inr ex_get) () ex_store =
     \<lparr>calls = [GetCall ''/store/roles'' ''r1'' (RolesPtr 0)],
      written = [WriteError (Error ''down'')], aborted = None\<rparr> \<and>
   Handler_Get ex_backend (\<lambda>r::unit. Inr ex_get) () ex_store =
     \<lparr>calls = [GetCall ''/store/roles'' ''r1'' (RolesPtr 0)],
      written = [Write (Some (RolesVal [ex_r1, ex_r2]))], aborted = None\<rparr> \<and>
   Handler_Delete ex_backend (\<lambda>r::unit. Inl (Error ''bad'')) () =
     \<lparr>calls = [], written = [WriteError (Error ''bad'')], aborted = None\<rparr> \<and>
   Handler_Delete ex_down (\<lambda>r::unit. Inr ex_delete) () =
     \<lparr>calls = [DeleteCall ''/store/roles'' ''r1''],
      written = [WriteError (Error ''down'')], aborted = None\<rparr> \<and>
   Handler_Delete ex_backend (\<lambda>r::unit. Inr ex_delete) () =
     \<lparr>calls = [DeleteCall ''/store/roles'' ''r1''], written = [WriteHeader 204],
      aborted = None\<rparr> \<and>
   Handler_Upsert ex_backend (\<lambda>r::unit. Inl (Error ''bad'')) () ex_store =
     \<lparr>calls = [], written = [WriteError (Error ''bad'')], aborted = None\<rparr> \<and>
   Handler_Upsert ex_down (\<lambda>r::unit. Inr ex_upsert) () ex_store =
     \<lparr>calls = [UpsertCall ''/store/policies'' ''p1'' (PoliciesPtr 0)],
      written = [WriteError (Error ''down'')], aborted = None\<rparr> \<and>
   Handler_Upsert ex_backend (\<lambda>r::unit. Inr ex_upsert) () ex_store =
     \<lparr>calls = [UpsertCall ''/store/policies'' ''p1'' (PoliciesPtr 0)],
      written = [Write (Some (PoliciesVal [ex_p1]))], aborted = None\<rparr>"
proof -
  have g: "Manager_Get ex_backend c k v s = Inr s" "Manager_Upsert ex_backend c k v s = Inr s"
    "Manager_Delete ex_backend c k = None" for c k v s
    by (simp_all add: ex_backend_def)
  have b: "Manager_Get ex_down c k v s = Inl (Error ''down'')"
    "Manager_Upsert ex_down c k v s = Inl (Error ''down'')"
    "Manager_Delete ex_down c k = Some (Error ''down'')" for c k v s
    by (simp_all add: ex_down_def)
  have v: "deref ex_store (RolesPtr 0) = Some (RolesVal [ex_r1, ex_r2])"
    "deref ex_store (PoliciesPtr 0) = Some (PoliciesVal [ex_p1])"
    by (simp_all add: deref_def roles_at_def policies_at_def cell_def ex_store_def)
  note t = Get_Delete_Upsert_short_circuit [where r = "()" and s = ex_store]
  from t [where getFactory = "\<lambda>r. Inl (Error ''bad'')" and e = "Error ''bad''"
      and deleteFactory = "\<lambda>r. Inl (Error ''bad'')" and upsertFactory = "\<lambda>r. Inl (Error ''bad'')"
      and h = ex_backend]
    t [where getFactory = "\<lambda>r. Inr ex_get" and deleteFactory = "\<lambda>r. Inr ex_delete"
      and upsertFactory = "\<lambda>r. Inr ex_upsert" and g = ex_get and d = ex_delete and u = ex_upsert
      and h = ex_down and e = "Error ''down''"]
    t [where getFactory = "\<lambda>r. Inr ex_get" and deleteFactory = "\<lambda>r. Inr ex_delete"
      and upsertFactory = "\<lambda>r. Inr ex_upsert" and g = ex_get and d = ex_delete and u = ex_upsert
      and h = ex_backend and s' = ex_store]
  show ?thesis
    by (simp add: g b v ex_get_def ex_delete_def ex_upsert_def)
qed

subsection \<open>C9: the bound filter routine\<close>

text \<open>
  Claim C9. After a successful fetch, whatever the name of the collection, List runs
  Filter and writes the Value it leaves. With no FilterFunc, Filter changes nothing and
  the fetched Value is written. With ListByQuery bound and a Value that points to
  Roles, the response is the member and id filter of the fetched roles, windowed:
  ListByQuery never reads the name of the collection.
\<close>

theorem List_applies_bound_filter:
  assumes req: "factory r = Inr l" "Parse r 100 0 500 = (limit, offset)"
    and fetched: "fetch h l (URL_Query r) limit offset s = (c, Inr s')"
  shows "Handler_List h Parse factory r s =
           (case Filter s' l (URL_Query r) offset limit of
              Inl p \<Rightarrow> \<lparr>calls = [c], written = [], aborted = Some p\<rparr>
            | Inr (s'', l') \<Rightarrow>
                \<lparr>calls = [c], written = [Write (deref s'' (Value l'))], aborted = None\<rparr>) \<and>
         (FilterFunc l = None \<longrightarrow>
            Filter s' l (URL_Query r) offset limit = Inr (s', l) \<and>
            Handler_List h Parse factory r s =
              \<lparr>calls = [c], written = [Write (deref s' (Value l))], aborted = None\<rparr>) \<and>
         (FilterFunc l = Some (ListByQuery Index) \<and> Value l = RolesPtr a \<and>
          roles_at s' a = Some rs \<longrightarrow>
            Handler_List h Parse factory r s =
              (case window Index limit offset
                      (filter (spec_role_kept (qget (URL_Query r) ''member'') (qget (URL_Query r) ''id''))
                         rs) of
                 Inl p \<Rightarrow> \<lparr>calls = [c], written = [], aborted = Some p\<rparr>
               | Inr res \<Rightarrow>
                   \<lparr>calls = [c], written = [Write (Some (RolesVal res))], aborted = None\<rparr>)) \<and>
         ListByQuery Index s' (l\<lparr>Collection := name\<rparr>) m offset limit =
           (case ListByQuery Index s' l m offset limit of
              Inl p \<Rightarrow> Inl p
            | Inr (s'', l') \<Rightarrow> Inr (s'', l'\<lparr>Collection := name\<rparr>))"
proof (intro conjI impI)
  note hl = Handler_List_fetched [where factory = factory and Parse = Parse, OF req fetched]
  show "Handler_List h Parse factory r s =
           (case Filter s' l (URL_Query r) offset limit of
              Inl p \<Rightarrow> \<lparr>calls = [c], written = [], aborted = Some p\<rparr>
            | Inr (s'', l') \<Rightarrow>
                \<lparr>calls = [c], written = [Write (deref s'' (Value l'))], aborted = None\<rparr>)"
    by (rule hl)
  show "ListByQuery Index s' (l\<lparr>Collection := name\<rparr>) m offset limit =
           (case ListByQuery Index s' l m offset limit of
              Inl p \<Rightarrow> Inl p
            | Inr (s'', l') \<Rightarrow> Inr (s'', l'\<lparr>Collection := name\<rparr>))"
    by (simp add: ListByQuery_def new_roles_def new_policies_def
        split: iface.splits option.splits sum.splits)
  {
    assume n: "FilterFunc l = None"
    then show f: "Filter s' l (URL_Query r) offset limit = Inr (s', l)"
      by (simp add: Filter_def)
    show "Handler_List h Parse factory r s =
        \<lparr>calls = [c], written = [Write (deref s' (Value l))], aborted = None\<rparr>"
      by (simp add: hl f)
  }
  {
    assume b: "FilterFunc l = Some (ListByQuery Index) \<and> Value l = RolesPtr a \<and>
          roles_at s' a = Some rs"
    then have f: "Filter s' l (URL_Query r) offset limit =
        ListByQuery Index s' l (URL_Query r) offset limit"
      by (simp add: Filter_ListByQuery)
    from b have q: "ListByQuery Index s' l (URL_Query r) offset limit =
        (case window Index limit offset (roles_loop (URL_Query r) rs []) of
           Inl p \<Rightarrow> Inl p
         | Inr res \<Rightarrow>
             Inr (s'\<lparr>roles_heap := roles_heap s' @ [res]\<rparr>,
                  l\<lparr>Value := RolesPtr (length (roles_heap s'))\<rparr>))"
      by (simp add: ListByQuery_Roles)
    show "Handler_List h Parse factory r s =
        (case window Index limit offset
                (filter (spec_role_kept (qget (URL_Query r) ''member'') (qget (URL_Query r) ''id''))
                   rs) of
           Inl p \<Rightarrow> \<lparr>calls = [c], written = [], aborted = Some p\<rparr>
         | Inr res \<Rightarrow>
             \<lparr>calls = [c], written = [Write (Some (RolesVal res))], aborted = None\<rparr>)"
      unfolding hl f q roles_loop_filter
      by (simp add: deref_new_roles split: sum.splits)
  }
qed

theorem List_applies_bound_filter_witness:
  "Handler_List ex_backend ex_Parse_default
     (ex_list ''/store/things'' (RolesPtr 0) (Some (ListByQuery pagination_Index)))
     (ex_request ''member'' [''alice'']) ex_store =
     \<lparr>calls = [ListCall ''/store/things'' (RolesPtr 0) 100 0],
      written = [Write (Some (RolesVal [ex_r1]))], aborted = None\<rparr> \<and>
   Handler_List ex_backend ex_Parse_default (ex_list ''/store/things'' (RolesPtr 0) None)
     (ex_request ''member'' [''alice'']) ex_store =
     \<lparr>calls = [ListCall ''/store/things'' (RolesPtr 0) 100 0],
      written = [Write (Some (RolesVal [ex_r1, ex_r2]))], aborted = None\<rparr>"
proof -
  let ?r = "ex_request ''member'' [''alice'']"
  let ?c = "ListCall ''/store/things'' (RolesPtr 0) 100 0"
  let ?bound = "\<lparr>Collection = ''/store/things'', Value = RolesPtr 0,
                 FilterFunc = Some (ListByQuery pagination_Index)\<rparr>"
  let ?plain = "\<lparr>Collection = ''/store/things'', Value = RolesPtr 0, FilterFunc = None\<rparr>"
  have parse: "ex_Parse_default ?r 100 0 500 = (100, 0)"
    by (simp add: ex_Parse_default_def)
  have seg: "last (Split ''/store/things'' CHR ''/'') = ''things''"
    by code_simp
  have fetched: "fetch ex_backend l (URL_Query ?r) 100 0 ex_store = (?c, Inr ex_store)"
    if "Collection l = ''/store/things''" "Value l = RolesPtr 0" for l :: ListRequest
    using that by (simp add: fetch_def seg ex_backend_def)
  have cell0: "roles_at ex_store 0 = Some [ex_r1, ex_r2]"
    by (simp add: roles_at_def cell_def ex_store_def)
  have kept: "filter (spec_role_kept (qget (URL_Query ?r) ''member'') (qget (URL_Query ?r) ''id''))
      [ex_r1, ex_r2] = [ex_r1]"
    by (simp add: spec_role_kept_def qget_def ex_request_def ex_r1_def ex_r2_def)
  have win: "window pagination_Index 100 0 [ex_r1] = Inr [ex_r1]"
    by (simp add: window_def reslice_def pagination_Index_def)
  have whole: "deref ex_store (RolesPtr 0) = Some (RolesVal [ex_r1, ex_r2])"
    by (simp add: deref_def cell0)
  have req: "ex_list c v f ?r = Inr \<lparr>Collection = c, Value = v, FilterFunc = f\<rparr>" for c v f
    by (simp add: ex_list_def)
  note bound = List_applies_bound_filter
      [where factory = "ex_list ''/store/things'' (RolesPtr 0) (Some (ListByQuery pagination_Index))"
         and r = ?r and l = ?bound and Parse = ex_Parse_default and limit = 100 and offset = 0
         and h = ex_backend and s = ex_store and c = ?c and s' = ex_store
         and Index = pagination_Index and a = 0 and rs = "[ex_r1, ex_r2]"
         and name = "''/store/things''" and m = Map.empty,
       OF req parse fetched]
  note plain = List_applies_bound_filter
      [where factory = "ex_list ''/store/things'' (RolesPtr 0) None"
         and r = ?r and l = ?plain and Parse = ex_Parse_default and limit = 100 and offset = 0
         and h = ex_backend and s = ex_store and c = ?c and s' = ex_store
         and Index = pagination_Index and a = 0 and rs = "[ex_r1, ex_r2]"
         and name = "''/store/things''" and m = Map.empty,
       OF req parse fetched]
  from bound [THEN conjunct2, THEN conjunct2, THEN conjunct1] cell0
  have "Handler_List ex_backend ex_Parse_default
      (ex_list ''/store/things'' (RolesPtr 0) (Some (ListByQuery pagination_Index))) ?r ex_store =
      (case window pagination_Index 100 0
              (filter (spec_role_kept (qget (URL_Query ?r) ''member'') (qget (URL_Query ?r) ''id''))
                 [ex_r1, ex_r2]) of
         Inl p \<Rightarrow> \<lparr>calls = [?c], written = [], aborted = Some p\<rparr>
       | Inr res \<Rightarrow> \<lparr>calls = [?c], written = [Write (Some (RolesVal res))], aborted = None\<rparr>)"
    by simp
  then have one: "Handler_List ex_backend ex_Parse_default
      (ex_list ''/store/things'' (RolesPtr 0) (Some (ListByQuery pagination_Index))) ?r ex_store =
      \<lparr>calls = [?c], written = [Write (Some (RolesVal [ex_r1]))], aborted = None\<rparr>"
    unfolding kept win by simp
  from plain [THEN conjunct2, THEN conjunct1]
  have two: "Handler_List ex_backend ex_Parse_default
      (ex_list ''/store/things'' (RolesPtr 0) None) ?r ex_store =
      \<lparr>calls = [?c], written = [Write (Some (RolesVal [ex_r1, ex_r2]))], aborted = None\<rparr>"
    by (simp add: whole)
  from one two show ?thesis
    by simp
qed

end
